theory Spec2Isabelle
  imports Main
begin

section \<open>JavaScript strings\<close>

text \<open>
  Strings are lists of 8-bit characters. \<open>String.prototype.toLowerCase\<close> is modelled on
  the letters \<open>A\<close> to \<open>Z\<close>; every other character is left as it is.
\<close>

definition lower_table :: "(char \<times> char) list" where
  "lower_table = zip ''ABCDEFGHIJKLMNOPQRSTUVWXYZ'' ''abcdefghijklmnopqrstuvwxyz''"

definition toLowerCase_char :: "char \<Rightarrow> char" where
  "toLowerCase_char c = (case map_of lower_table c of None \<Rightarrow> c | Some l \<Rightarrow> l)"

definition toLowerCase :: "string \<Rightarrow> string" where
  "toLowerCase s = map toLowerCase_char s"

section \<open>terraform-downloader.js: the platform mapper\<close>

record platform =
  os :: string
  arch :: string

text \<open>
  The errors the program throws, one constructor for each \<open>new Error(...)\<close> of the
  source and for each kind of error that comes from the runtime; the arguments are the
  values the message is built from.
\<close>

datatype js_error =
    UnsupportedOS string
  | UnsupportedArch string
  | NetworkError string
  | HttpError int string
  | HttpStatusError int string
  | JsonParseError string
  | TypeError
  | NoLatestVersion
  | ExtractFailed
  | BinaryNotFound

text \<open>The first \<open>switch\<close> of \<open>mapOSArchToTerraform\<close>; \<open>None\<close> is its \<open>default\<close> branch.\<close>

definition mapOS :: "string \<Rightarrow> string option" where
  "mapOS detectedOS =
     (let s = toLowerCase detectedOS in
      if s = ''windows'' then Some ''windows''
      else if s = ''macos'' then Some ''darwin''
      else if s = ''linux'' then Some ''linux''
      else if s = ''freebsd'' then Some ''freebsd''
      else if s = ''openbsd'' then Some ''openbsd''
      else if s = ''solaris'' \<or> s = ''sunos'' then Some ''solaris''
      else None)"

text \<open>The second \<open>switch\<close>.\<close>

definition mapArch :: "string \<Rightarrow> string option" where
  "mapArch detectedArch =
     (let s = toLowerCase detectedArch in
      if s = ''x64'' \<or> s = ''x86_64'' then Some ''amd64''
      else if s = ''x86'' \<or> s = ''ia32'' then Some ''386''
      else if s = ''arm64'' \<or> s = ''aarch64'' then Some ''arm64''
      else if s = ''arm'' then Some ''arm''
      else None)"

text \<open>
  The operating system is mapped first, so an unsupported system is reported even when the
  architecture is unsupported too. Each error quotes the argument as it was passed.
\<close>

definition mapOSArchToTerraform :: "string \<Rightarrow> string \<Rightarrow> js_error + platform" where
  "mapOSArchToTerraform detectedOS detectedArch =
     (case mapOS detectedOS of
        None \<Rightarrow> Inl (UnsupportedOS detectedOS)
      | Some terraformOS \<Rightarrow>
          (case mapArch detectedArch of
             None \<Rightarrow> Inl (UnsupportedArch detectedArch)
           | Some terraformArch \<Rightarrow> Inr \<lparr>os = terraformOS, arch = terraformArch\<rparr>))"

text \<open>The mapping table of the specification, as association lists.\<close>

definition os_table :: "(string \<times> string) list" where
  "os_table =
     [(''windows'', ''windows''), (''macos'', ''darwin''), (''linux'', ''linux''),
      (''freebsd'', ''freebsd''), (''openbsd'', ''openbsd''), (''solaris'', ''solaris''),
      (''sunos'', ''solaris'')]"

definition arch_table :: "(string \<times> string) list" where
  "arch_table =
     [(''x64'', ''amd64''), (''x86_64'', ''amd64''), (''x86'', ''386''), (''ia32'', ''386''),
      (''arm64'', ''arm64''), (''aarch64'', ''arm64''), (''arm'', ''arm'')]"

text \<open>What a call yields when only its value counts: the target, or nothing when it throws.\<close>

definition returned :: "js_error + 'a \<Rightarrow> 'a option" where
  "returned r = (case r of Inl _ \<Rightarrow> None | Inr v \<Rightarrow> Some v)"

text \<open>The class of a thrown error, without the text it quotes.\<close>

datatype error_class = OSClass | ArchClass | OtherClass

fun class_of :: "js_error \<Rightarrow> error_class" where
  "class_of (UnsupportedOS _) = OSClass"
| "class_of (UnsupportedArch _) = ArchClass"
| "class_of _ = OtherClass"

section \<open>os-detector.js: the names the detector produces\<close>

text \<open>
  The \<open>switch\<close> of \<open>detectOSAndArch\<close> over \<open>os.platform()\<close>, in the Node.js branch.
\<close>

definition detectOS :: "string \<Rightarrow> string" where
  "detectOS p =
     (if p = ''win32'' then ''Windows''
      else if p = ''darwin'' then ''macOS''
      else if p = ''linux'' then ''Linux''
      else if p = ''freebsd'' then ''FreeBSD''
      else if p = ''openbsd'' then ''OpenBSD''
      else if p = ''sunos'' then ''SunOS''
      else if p = ''aix'' then ''AIX''
      else p)"

text \<open>The platforms whose detected name the mapper supports.\<close>

definition detected_platforms :: "string list" where
  "detected_platforms = [''win32'', ''darwin'', ''linux'', ''freebsd'', ''openbsd'', ''sunos'']"


section \<open>index.js: comparing versions\<close>

text \<open>
  \<open>String.prototype.split\<close> with a one-character separator: the pieces between the
  separators, so the empty string gives one empty piece.
\<close>

fun split_on :: "char \<Rightarrow> string \<Rightarrow> string list" where
  "split_on sep [] = [[]]"
| "split_on sep (c # cs) =
     (if c = sep then [] # split_on sep cs
      else (let r = split_on sep cs in (c # hd r) # tl r))"

text \<open>
  \<open>parseInt(s, 10)\<close>: leading white space is skipped, one sign is read, then the longest
  run of decimal digits; with no digit the result is \<open>NaN\<close>, which is \<open>None\<close> here.
  A number is its mathematical value: the rounding of an integer beyond \<open>2^53\<close> to a
  double is not part of the model. White space is the ASCII white space and the no-break
  space (code 160); the other Unicode space characters have no 8-bit code.
\<close>

definition digit_table :: "(char \<times> int) list" where
  "digit_table = zip ''0123456789'' [0, 1, 2, 3, 4, 5, 6, 7, 8, 9]"

definition is_digit :: "char \<Rightarrow> bool" where
  "is_digit c = (map_of digit_table c \<noteq> None)"

definition digit_value :: "char \<Rightarrow> int" where
  "digit_value c = (case map_of digit_table c of None \<Rightarrow> 0 | Some d \<Rightarrow> d)"

definition is_space :: "char \<Rightarrow> bool" where
  "is_space c = (c \<in> set [CHR '' '', CHR 0x09, CHR 0x0A, CHR 0x0B, CHR 0x0C, CHR 0x0D, CHR 0xA0])"

definition digits_value :: "string \<Rightarrow> int" where
  "digits_value ds = foldl (\<lambda>acc c. 10 * acc + digit_value c) 0 ds"

definition parse_digits :: "string \<Rightarrow> int option" where
  "parse_digits s =
     (let ds = takeWhile is_digit s in if ds = [] then None else Some (digits_value ds))"

definition parseInt :: "string \<Rightarrow> int option" where
  "parseInt s =
     (case dropWhile is_space s of
        [] \<Rightarrow> None
      | c # cs \<Rightarrow>
          if c = CHR ''-'' then map_option uminus (parse_digits cs)
          else if c = CHR ''+'' then parse_digits cs
          else parse_digits (c # cs))"

text \<open>
  \<open>pa[i]\<close> is \<open>undefined\<close> past the end of the array (the outer \<open>None\<close>), and
  \<open>pa[i] || 0\<close> is 0 for \<open>undefined\<close>, for \<open>NaN\<close> and for 0.
\<close>

definition index :: "'a list \<Rightarrow> nat \<Rightarrow> 'a option" where
  "index xs i = (if i < length xs then Some (xs ! i) else None)"

fun or_zero :: "int option option \<Rightarrow> int" where
  "or_zero None = 0"
| "or_zero (Some None) = 0"
| "or_zero (Some (Some n)) = n"

text \<open>The \<open>for\<close> loop of \<open>compareSemver\<close>, from index \<open>i\<close> on.\<close>

function compareSemver_loop :: "int option list \<Rightarrow> int option list \<Rightarrow> nat \<Rightarrow> int" where
  "compareSemver_loop pa pb i =
     (if i < max (length pa) (length pb) then
        (if or_zero (index pa i) > or_zero (index pb i) then 1
         else if or_zero (index pa i) < or_zero (index pb i) then -1
         else compareSemver_loop pa pb (i + 1))
      else 0)"
  by pat_completeness auto
termination
  by (relation "measure (\<lambda>(pa, pb, i). max (length pa) (length pb) - i)") auto

declare compareSemver_loop.simps [simp del]

definition compareSemver :: "string \<Rightarrow> string \<Rightarrow> int" where
  "compareSemver a b =
     compareSemver_loop (map parseInt (split_on CHR ''.'' a)) (map parseInt (split_on CHR ''.'' b)) 0"

text \<open>
  The comparison in the words of the specification: versions are compared component by
  component, a missing component counting as 0.
\<close>

fun compare_components :: "int list \<Rightarrow> int list \<Rightarrow> int" where
  "compare_components [] [] = 0"
| "compare_components (x # xs) [] =
     (if x > 0 then 1 else if x < 0 then -1 else compare_components xs [])"
| "compare_components [] (y # ys) =
     (if 0 > y then 1 else if 0 < y then -1 else compare_components [] ys)"
| "compare_components (x # xs) (y # ys) =
     (if x > y then 1 else if x < y then -1 else compare_components xs ys)"

text \<open>The number a component counts as: 0 when it does not parse.\<close>

definition component_value :: "string \<Rightarrow> int" where
  "component_value c = (case parseInt c of None \<Rightarrow> 0 | Some n \<Rightarrow> n)"

definition components :: "string \<Rightarrow> int list" where
  "components v = map component_value (split_on CHR ''.'' v)"

section \<open>index.js: the exit of the child process\<close>

text \<open>
  What the handler of the child's \<open>exit\<close> event does to the supervising process:
  \<open>process.kill(process.pid, signal)\<close> or \<open>process.exit(code)\<close>. The event carries
  the exit code and the signal name, each of them \<open>null\<close> (here \<open>None\<close>) when it does
  not apply. A string is truthy when it is not empty.
\<close>

datatype process_action = Kill nat string | Exit int

definition on_child_exit :: "nat \<Rightarrow> int option \<Rightarrow> string option \<Rightarrow> process_action" where
  "on_child_exit pid code signal =
     (if (case signal of None \<Rightarrow> False | Some s \<Rightarrow> s \<noteq> [])
      then Kill pid (the signal)
      else Exit (case code of None \<Rightarrow> 1 | Some c \<Rightarrow> c))"

section \<open>The world outside the program\<close>

text \<open>
  A JSON value, as \<open>JSON.parse\<close> gives it. A number is an integer here; the program
  only asks whether a number is zero.
\<close>

datatype json =
    JNull
  | JBool bool
  | JNum int
  | JStr string
  | JArr "json list"
  | JObj "(string \<times> json) list"

text \<open>
  Truthiness. A value that may be \<open>undefined\<close> is a \<open>json option\<close>, and \<open>undefined\<close>
  is falsy.
\<close>

fun truthy :: "json \<Rightarrow> bool" where
  "truthy JNull = False"
| "truthy (JBool b) = b"
| "truthy (JNum n) = (n \<noteq> 0)"
| "truthy (JStr s) = (s \<noteq> [])"
| "truthy (JArr _) = True"
| "truthy (JObj _) = True"

definition truthy_opt :: "json option \<Rightarrow> bool" where
  "truthy_opt v = (case v of None \<Rightarrow> False | Some j \<Rightarrow> truthy j)"

text \<open>
  Reading a property \<open>v.k\<close>, for the keys the program reads (\<open>version\<close>, \<open>tag_name\<close>,
  \<open>name\<close>): a \<open>TypeError\<close> on \<open>null\<close>, the member of an object (the last one when
  the key is repeated), \<open>undefined\<close> otherwise.
\<close>

definition get_prop :: "json \<Rightarrow> string \<Rightarrow> js_error + json option" where
  "get_prop v k =
     (case v of
        JNull \<Rightarrow> Inl TypeError
      | JObj kvs \<Rightarrow> Inr (map_of (rev kvs) k)
      | _ \<Rightarrow> Inr None)"

text \<open>
  What a request that \<open>https.get\<close> has sent comes to:
  \<^item> \<open>NetError e\<close>: an \<open>error\<close> event on the request before any response;
  \<^item> \<open>Truncated part e\<close>: a 200 response whose transfer breaks with an \<open>error\<close> event
    on the request (a socket error) after \<open>part\<close> of the body has arrived;
  \<^item> \<open>Closed part\<close>: a 200 response whose body is cut after \<open>part\<close> by the server
    closing the connection, which the runtime reports on the response only (\<open>aborted\<close>,
    \<open>close\<close>) and never as \<open>end\<close>;
  \<^item> \<open>Response r\<close>: a complete response.
\<close>

record response =
  statusCode :: int
  statusMessage :: string
  location :: "string option"
  body :: string

datatype http_result =
    NetError string
  | Truncated string string
  | Closed string
  | Response response

text \<open>A file with its modification time in milliseconds and its content, or a directory.\<close>

datatype node = File int string | Dir

record dirent =
  name :: string
  isDirectory :: bool

text \<open>
  Everything the program reads from its environment, and the two traces it leaves: the
  URLs of the version lookups it made and the lines it printed with \<open>console.error\<close>
  (the text before the error, and the error). \<open>net\<close> answers the requests that are
  sent; its argument is \<open>None\<close> for the request \<open>https.get\<close> sends when it is called with
  \<open>undefined\<close>. \<open>JSON_parse\<close> is \<open>None\<close> where
  \<open>JSON.parse\<close> throws, \<open>unzip\<close> is \<open>None\<close> where the archive cannot be extracted, and
  \<open>readdir\<close> is \<open>None\<close> where \<open>readdirSync\<close> throws. \<open>probe_status\<close> is the
  \<open>status\<close> of \<open>spawnSync('terraform', ['version'])\<close>.
\<close>

record world =
  fs :: "string \<rightharpoonup> node"
  readdir :: "string \<Rightarrow> dirent list option"
  net :: "string option \<Rightarrow> http_result"
  JSON_parse :: "string \<Rightarrow> json option"
  JSON_stringify :: "json \<Rightarrow> string"
  to_text :: "json \<Rightarrow> string"
  toISOString :: "int \<Rightarrow> string"
  unzip :: "string \<Rightarrow> (string \<times> string) list option"
  now :: int
  homedir :: string
  env_TERRAFORM_VERSION :: "string option"
  node_platform :: string
  node_arch :: string
  probe_status :: "int option"
  lookups :: "string list"
  stderr :: "(string \<times> js_error) list"

text \<open>
  How a call ends: it returns, it throws, the process exits, or it never settles (the
  promise stays pending).
\<close>

datatype 'a outcome = Returned 'a | Threw js_error | Exited int | Pending

text \<open>
  \<open>path.join\<close> and \<open>path.dirname\<close> on plain segments; the normalisation of \<open>.\<close>,
  \<open>..\<close> and repeated separators is not modelled. Creating a directory, removing a
  file and writing a file are taken to succeed.
\<close>

fun path_join :: "string list \<Rightarrow> string" where
  "path_join [] = ''.''"
| "path_join [p] = p"
| "path_join (p # ps) = p @ ''/'' @ path_join ps"

definition dirname :: "string \<Rightarrow> string" where
  "dirname p =
     (let segs = split_on CHR ''/'' p
      in if length segs \<le> 1 then ''.'' else path_join (butlast segs))"

definition existsSync :: "world \<Rightarrow> string \<Rightarrow> bool" where
  "existsSync w p = (fs w p \<noteq> None)"

definition mkdirSync :: "world \<Rightarrow> string \<Rightarrow> world" where
  "mkdirSync w p = w\<lparr>fs := (fs w)(p \<mapsto> Dir)\<rparr>"

definition unlinkSync :: "world \<Rightarrow> string \<Rightarrow> world" where
  "unlinkSync w p = w\<lparr>fs := (fs w)(p := None)\<rparr>"

definition write_file :: "world \<Rightarrow> string \<Rightarrow> string \<Rightarrow> world" where
  "write_file w p bytes = w\<lparr>fs := (fs w)(p \<mapsto> File (now w) bytes)\<rparr>"

section \<open>The index script with the latest-version lookup\<close>

definition LATEST_CACHE_DIR :: "world \<Rightarrow> string" where
  "LATEST_CACHE_DIR w = path_join [homedir w, ''.ntf'']"

definition LATEST_CACHE_FILE :: "world \<Rightarrow> string" where
  "LATEST_CACHE_FILE w = path_join [LATEST_CACHE_DIR w, ''latest-version.json'']"

definition ONE_HOUR_MS :: int where
  "ONE_HOUR_MS = 60 * 60 * 1000"

record latest_cache =
  data :: json
  fresh :: bool

text \<open>Every exception inside \<open>readLatestCache\<close> is caught and gives \<open>null\<close>.\<close>

definition readLatestCache :: "world \<Rightarrow> latest_cache option" where
  "readLatestCache w =
     (case fs w (LATEST_CACHE_FILE w) of
        None \<Rightarrow> None
      | Some Dir \<Rightarrow> None
      | Some (File mtimeMs raw) \<Rightarrow>
          (case JSON_parse w raw of
             None \<Rightarrow> None
           | Some d \<Rightarrow> Some \<lparr>data = d, fresh = (now w - mtimeMs < ONE_HOUR_MS)\<rparr>))"

text \<open>\<open>writeLatestCache\<close> is best effort: where a write would throw, nothing is written.\<close>

definition writeLatestCache :: "world \<Rightarrow> string \<Rightarrow> world" where
  "writeLatestCache w version =
     (let w1 = (if existsSync w (LATEST_CACHE_DIR w) then w else mkdirSync w (LATEST_CACHE_DIR w));
          payload = JObj [(''version'', JStr version), (''fetchedAt'', JStr (toISOString w (now w)))]
      in if fs w1 (LATEST_CACHE_DIR w) = Some Dir \<and> fs w1 (LATEST_CACHE_FILE w) \<noteq> Some Dir
         then write_file w1 (LATEST_CACHE_FILE w) (JSON_stringify w payload)
         else w1)"

text \<open>
  \<open>https.get\<close> sends a request for a string that is an absolute \<open>https\<close> URL. On any
  other string it throws at once, a \<open>TypeError\<close>: a relative reference does not parse as
  a URL, and another scheme is refused. The test here is on the scheme, in any case of
  letters.
\<close>

definition requestable :: "string \<Rightarrow> bool" where
  "requestable url = (toLowerCase (take 8 url) = ''https://'')"

definition redirect_codes :: "int list" where
  "redirect_codes = [301, 302, 303, 307, 308]"

text \<open>
  \<open>requestJson\<close> follows redirects by calling itself; the first argument bounds the number
  of requests, and the call is \<open>Pending\<close> when the bound is used up. A throw of
  \<open>https.get\<close> inside the promise rejects it. The promise settles on the \<open>end\<close> of the
  response or on the \<open>error\<close> of the request, so it stays \<open>Pending\<close> when the body is
  cut by a close.
\<close>

fun requestJson :: "nat \<Rightarrow> world \<Rightarrow> string \<Rightarrow> json outcome" where
  "requestJson 0 w url = Pending"
| "requestJson (Suc k) w url =
     (if \<not> requestable url then Threw TypeError
      else case net w (Some url) of
        NetError e \<Rightarrow> Threw (NetworkError e)
      | Truncated part e \<Rightarrow> Threw (NetworkError e)
      | Closed part \<Rightarrow> Pending
      | Response r \<Rightarrow>
          if statusCode r \<in> set redirect_codes \<and>
             (case location r of None \<Rightarrow> False | Some loc \<Rightarrow> loc \<noteq> [])
          then requestJson k w (the (location r))
          else if 200 \<le> statusCode r \<and> statusCode r < 300
          then (case JSON_parse w (body r) of
                  None \<Rightarrow> Threw (JsonParseError url)
                | Some j \<Rightarrow> Returned j)
          else Threw (HttpStatusError (statusCode r) url))"

text \<open>\<open>String(v)\<close>: the string itself, and the environment's text for any other value.\<close>

definition js_String :: "world \<Rightarrow> json \<Rightarrow> string" where
  "js_String w v = (case v of JStr s \<Rightarrow> s | _ \<Rightarrow> to_text w v)"

text \<open>\<open>replace(/^v/i, '')\<close>.\<close>

definition strip_v :: "string \<Rightarrow> string" where
  "strip_v s = (case s of [] \<Rightarrow> [] | c # cs \<Rightarrow> if c = CHR ''v'' \<or> c = CHR ''V'' then cs else s)"

definition normalizeVersion :: "world \<Rightarrow> json option \<Rightarrow> string option" where
  "normalizeVersion w v =
     (if \<not> truthy_opt v then None else Some (strip_v (js_String w (the v))))"

definition RELEASE_LATEST :: string where
  "RELEASE_LATEST = ''https://api.github.com/repos/hashicorp/terraform/releases/latest''"

definition TAGS_LATEST :: string where
  "TAGS_LATEST = ''https://api.github.com/repos/hashicorp/terraform/tags?per_page=1''"

text \<open>\<open>normalizeVersion(release.tag_name || release.name)\<close>.\<close>

definition release_version :: "world \<Rightarrow> json \<Rightarrow> js_error + string option" where
  "release_version w release =
     (case get_prop release ''tag_name'' of
        Inl e \<Rightarrow> Inl e
      | Inr t \<Rightarrow>
          if truthy_opt t then Inr (normalizeVersion w t)
          else (case get_prop release ''name'' of
                  Inl e \<Rightarrow> Inl e
                | Inr n \<Rightarrow> Inr (normalizeVersion w n)))"

text \<open>The version of the cached record, when the first \<open>if\<close> of the resolver takes it.\<close>

definition cached_version :: "world \<Rightarrow> json option" where
  "cached_version w =
     (case readLatestCache w of
        None \<Rightarrow> None
      | Some cached \<Rightarrow>
          if truthy (data cached) then
            (case get_prop (data cached) ''version'' of
               Inr (Some v) \<Rightarrow> if truthy v \<and> fresh cached then Some v else None
             | _ \<Rightarrow> None)
          else None)"

text \<open>The end of the resolver: the check of the version, the write of the cache.\<close>

definition finish_latest :: "world \<Rightarrow> string option \<Rightarrow> json outcome \<times> world" where
  "finish_latest w version =
     (case version of
        None \<Rightarrow> (Threw NoLatestVersion, w)
      | Some v \<Rightarrow>
          if v = [] then (Threw NoLatestVersion, w)
          else (Returned (JStr v), writeLatestCache w v))"

text \<open>The body of the \<open>try\<close>: the query of the latest release and the reading of its tag.\<close>

definition primary_lookup :: "nat \<Rightarrow> world \<Rightarrow> (string option) outcome" where
  "primary_lookup fuel w =
     (case requestJson fuel w RELEASE_LATEST of
        Returned release \<Rightarrow>
          (case release_version w release of Inl e \<Rightarrow> Threw e | Inr v \<Rightarrow> Returned v)
      | Threw e \<Rightarrow> Threw e
      | Exited c \<Rightarrow> Exited c
      | Pending \<Rightarrow> Pending)"

text \<open>
  The body of the \<open>catch\<close>, with the error \<open>e\<close> that was caught: the query of the tags,
  whose own failure is not caught.
\<close>

definition fallback_lookup :: "nat \<Rightarrow> world \<Rightarrow> js_error \<Rightarrow> (string option) outcome" where
  "fallback_lookup fuel w e =
     (case requestJson fuel w TAGS_LATEST of
        Returned tags \<Rightarrow>
          (case tags of
             JArr (t # ts) \<Rightarrow>
               (case get_prop t ''name'' of
                  Inl e' \<Rightarrow> Threw e'
                | Inr n \<Rightarrow> Returned (normalizeVersion w n))
           | _ \<Rightarrow> Threw e)
      | Threw e' \<Rightarrow> Threw e'
      | Exited c \<Rightarrow> Exited c
      | Pending \<Rightarrow> Pending)"

definition log_lookup :: "world \<Rightarrow> string \<Rightarrow> world" where
  "log_lookup w url = w\<lparr>lookups := lookups w @ [url]\<rparr>"

definition getLatestTerraformVersionCached :: "nat \<Rightarrow> world \<Rightarrow> json outcome \<times> world" where
  "getLatestTerraformVersionCached fuel w =
     (case cached_version w of
        Some v \<Rightarrow> (Returned v, w)
      | None \<Rightarrow>
          (let w1 = log_lookup w RELEASE_LATEST in
           case primary_lookup fuel w1 of
             Returned version \<Rightarrow> finish_latest w1 version
           | Threw e \<Rightarrow>
               (let w2 = log_lookup w1 TAGS_LATEST in
                case fallback_lookup fuel w2 e of
                  Returned version \<Rightarrow> finish_latest w2 version
                | Threw e' \<Rightarrow> (Threw e', w2)
                | Exited c \<Rightarrow> (Exited c, w2)
                | Pending \<Rightarrow> (Pending, w2))
           | Exited c \<Rightarrow> (Exited c, w1)
           | Pending \<Rightarrow> (Pending, w1)))"

text \<open>
  The persisted record is fresh, with version \<open>v\<close>: the cache file is there, it was
  written less than an hour ago, and it parses to an object whose \<open>version\<close> is the
  truthy value \<open>v\<close>.
\<close>

definition fresh_record :: "world \<Rightarrow> json \<Rightarrow> bool" where
  "fresh_record w v =
     (case fs w (LATEST_CACHE_FILE w) of
        Some (File mtimeMs raw) \<Rightarrow>
          now w - mtimeMs < ONE_HOUR_MS \<and>
          (case JSON_parse w raw of
             Some (JObj kvs) \<Rightarrow> map_of (rev kvs) ''version'' = Some v \<and> truthy v
           | _ \<Rightarrow> False)
      | _ \<Rightarrow> False)"

text \<open>The record is absent, or it was written an hour ago or more.\<close>

definition stale_or_absent :: "world \<Rightarrow> bool" where
  "stale_or_absent w =
     (case fs w (LATEST_CACHE_FILE w) of
        None \<Rightarrow> True
      | Some (File mtimeMs raw) \<Rightarrow> now w - mtimeMs \<ge> ONE_HOUR_MS
      | Some Dir \<Rightarrow> False)"

text \<open>The query of the latest release did not give a version: the \<open>catch\<close> is entered.\<close>

definition primary_failed :: "nat \<Rightarrow> world \<Rightarrow> bool" where
  "primary_failed fuel w = (case primary_lookup fuel w of Threw _ \<Rightarrow> True | _ \<Rightarrow> False)"

section \<open>terraform-downloader.js: fetching the archive\<close>

definition buildTerraformURL :: "string \<Rightarrow> string \<Rightarrow> string \<Rightarrow> string" where
  "buildTerraformURL version os_name arch_name =
     ''https://releases.hashicorp.com/terraform/'' @ version @ ''/'' @
     ''terraform_'' @ version @ ''_'' @ os_name @ ''_'' @ arch_name @ ''.zip''"

text \<open>
  \<open>fs.createWriteStream\<close> opens the destination for writing: the file is created, or
  emptied when it is there. The destination is taken to be writable.
\<close>

definition createWriteStream :: "world \<Rightarrow> string \<Rightarrow> world" where
  "createWriteStream w p = write_file w p []"

text \<open>
  \<open>downloadFile\<close>. The write stream is opened first. Then:
  \<^item> the URL is \<open>undefined\<close> (a redirect without a \<open>Location\<close> header): \<open>https.get\<close>
    takes no string and no options, sends its request to the default host and drops the
    callback, so only the \<open>error\<close> handler of the request can settle the promise;
  \<^item> the URL is a string that \<open>https.get\<close> refuses: the throw rejects the promise, and
    nothing removes the file that was opened;
  \<^item> an \<open>error\<close> event on the request, before a response or while a body is arriving:
    the handler closes the stream, removes the file and rejects;
  \<^item> a body cut by a close: the part that arrived is in the file, and nothing listens on
    the response, so the stream never finishes and the promise never settles;
  \<^item> a 301 or a 302: the file is removed and \<open>downloadFile\<close> calls itself with the
    \<open>Location\<close> header as it is;
  \<^item> any other status but 200: the file is removed and the promise rejects;
  \<^item> a complete 200: the body is in the file and the promise resolves.

  The first argument bounds the number of requests; the promise is \<open>Pending\<close> when the
  bound is used up.
\<close>

fun downloadFile :: "nat \<Rightarrow> world \<Rightarrow> string option \<Rightarrow> string \<Rightarrow> string outcome \<times> world" where
  "downloadFile 0 w url outputPath = (Pending, w)"
| "downloadFile (Suc k) w url outputPath =
     (let w1 = createWriteStream w outputPath in
      case url of
        None \<Rightarrow>
          (case net w None of
             NetError e \<Rightarrow> (Threw (NetworkError e), unlinkSync w1 outputPath)
           | Truncated part e \<Rightarrow> (Threw (NetworkError e), unlinkSync w1 outputPath)
           | Closed part \<Rightarrow> (Pending, w1)
           | Response r \<Rightarrow> (Pending, w1))
      | Some u \<Rightarrow>
          if \<not> requestable u then (Threw TypeError, w1)
          else
            (case net w (Some u) of
               NetError e \<Rightarrow> (Threw (NetworkError e), unlinkSync w1 outputPath)
             | Truncated part e \<Rightarrow>
                 (Threw (NetworkError e), unlinkSync (write_file w1 outputPath part) outputPath)
             | Closed part \<Rightarrow> (Pending, write_file w1 outputPath part)
             | Response r \<Rightarrow>
                 if statusCode r = 302 \<or> statusCode r = 301 then
                   downloadFile k (unlinkSync w1 outputPath) (location r) outputPath
                 else if statusCode r \<noteq> 200 then
                   (Threw (HttpError (statusCode r) (statusMessage r)), unlinkSync w1 outputPath)
                 else (Returned outputPath, write_file w1 outputPath (body r))))"

text \<open>
  A chain of redirects as the fetcher follows them: every URL is one that \<open>https.get\<close>
  requests, every URL but the last answers 301 or 302 with the next URL as its
  \<open>Location\<close>, and the last answers 200 with the body \<open>b\<close>.
\<close>

fun redirect_chain :: "world \<Rightarrow> string list \<Rightarrow> string \<Rightarrow> bool" where
  "redirect_chain w [] b = False"
| "redirect_chain w [u] b =
     (requestable u \<and>
      (case net w (Some u) of
         Response r \<Rightarrow> statusCode r = 200 \<and> body r = b
       | _ \<Rightarrow> False))"
| "redirect_chain w (u # v # us) b =
     (requestable u \<and>
      (case net w (Some u) of
         Response r \<Rightarrow>
           (statusCode r = 301 \<or> statusCode r = 302) \<and> location r = Some v \<and>
           redirect_chain w (v # us) b
       | _ \<Rightarrow> False))"

section \<open>terraform-downloader.js: extracting and provisioning\<close>

definition TERRAFORM_VERSION :: string where
  "TERRAFORM_VERSION = ''1.13.3''"

definition DEFAULT_OUTPUT_DIR :: "world \<Rightarrow> string" where
  "DEFAULT_OUTPUT_DIR w = path_join [homedir w, ''.ntf'', TERRAFORM_VERSION]"

definition detectOSAndArch :: "world \<Rightarrow> platform" where
  "detectOSAndArch w = \<lparr>os = detectOS (node_platform w), arch = node_arch w\<rparr>"

text \<open>
  One entry of the archive written under the extraction directory: a name that ends in a
  slash is a directory, any other name is a file whose parent directory is created first.
\<close>

definition write_entry :: "string \<Rightarrow> world \<Rightarrow> string \<times> string \<Rightarrow> world" where
  "write_entry extractDir w entry =
     (let outputPath = path_join [extractDir, fst entry] in
      if fst entry \<noteq> [] \<and> last (fst entry) = CHR ''/'' then mkdirSync w outputPath
      else write_file (mkdirSync w (dirname outputPath)) outputPath (snd entry))"

text \<open>
  \<open>extractZip\<close>. The two ways of extracting (the \<open>yauzl\<close> package, the system's
  \<open>unzip\<close>) are the one function \<open>unzip\<close> of the world, from the bytes of the archive to
  its entries. Every failure inside the \<open>try\<close> is thrown again as one error; a failed
  extraction writes nothing here. Permissions are not modelled.
\<close>

definition extractZip :: "world \<Rightarrow> string \<Rightarrow> string \<Rightarrow> string outcome \<times> world" where
  "extractZip w zipPath extractDir =
     (let w1 = (if \<not> existsSync w extractDir then mkdirSync w extractDir else w) in
      case fs w1 zipPath of
        Some (File mtimeMs z) \<Rightarrow>
          (case unzip w z of
             None \<Rightarrow> (Threw ExtractFailed, w1)
           | Some entries \<Rightarrow> (Returned extractDir, foldl (write_entry extractDir) w1 entries))
      | _ \<Rightarrow> (Threw ExtractFailed, w1))"

text \<open>
  The steps after the archive is in place, when extraction is asked for: extract, check
  that the binary is there, remove the archive (best effort), return the binary's path.
\<close>

definition extract_step :: "world \<Rightarrow> string \<Rightarrow> string \<Rightarrow> string outcome \<times> world" where
  "extract_step w outputPath extractDir =
     (case extractZip w outputPath extractDir of
        (Returned d, w1) \<Rightarrow>
          (let terraformPath = path_join [extractDir, ''terraform''] in
           if existsSync w1 terraformPath then (Returned terraformPath, unlinkSync w1 outputPath)
           else (Threw BinaryNotFound, w1))
      | (other, w1) \<Rightarrow> (other, w1))"

text \<open>The name of the archive, as the template string builds it.\<close>

definition archive_name :: "string \<Rightarrow> platform \<Rightarrow> string" where
  "archive_name version terraformPlatform =
     ''terraform_'' @ version @ ''_'' @ os terraformPlatform @ ''_'' @
     arch terraformPlatform @ ''.zip''"

text \<open>The directory of the archive is created when it is not there.\<close>

definition prepare_dir :: "world \<Rightarrow> string \<Rightarrow> world" where
  "prepare_dir w outputPath =
     (let dir = dirname outputPath in if \<not> existsSync w dir then mkdirSync w dir else w)"

text \<open>The body of the \<open>try\<close> of \<open>downloadTerraform\<close>.\<close>

definition downloadTerraform_try ::
  "nat \<Rightarrow> world \<Rightarrow> string \<Rightarrow> string \<Rightarrow> bool \<Rightarrow> string outcome \<times> world" where
  "downloadTerraform_try fuel w version outputDir extract =
     (let systemInfo = detectOSAndArch w in
      case mapOSArchToTerraform (os systemInfo) (arch systemInfo) of
        Inl e \<Rightarrow> (Threw e, w)
      | Inr terraformPlatform \<Rightarrow>
          (let downloadURL =
                 buildTerraformURL version (os terraformPlatform) (arch terraformPlatform);
               filename = archive_name version terraformPlatform;
               outputPath = path_join [outputDir, filename];
               terraformBinaryPath = path_join [outputDir, ''terraform'']
           in
           if existsSync w terraformBinaryPath \<and> \<not> extract then (Returned terraformBinaryPath, w)
           else if existsSync w outputPath then
             (if \<not> extract then (Returned outputPath, w)
              else extract_step w outputPath outputDir)
           else
             (case downloadFile fuel (prepare_dir w outputPath) (Some downloadURL) outputPath of
                (Returned p, w2) \<Rightarrow>
                  if extract then extract_step w2 outputPath outputDir
                  else (Returned outputPath, w2)
              | (other, w2) \<Rightarrow> (other, w2))))"

text \<open>
  The download step fails with the error \<open>e\<close>: the platform is supported, neither the
  binary (when no extraction is asked for) nor the archive is in place, so the archive is
  fetched, and the fetcher rejects with \<open>e\<close>.
\<close>

definition download_fails ::
  "nat \<Rightarrow> world \<Rightarrow> string \<Rightarrow> string \<Rightarrow> bool \<Rightarrow> js_error \<Rightarrow> bool" where
  "download_fails fuel w version outputDir extract e =
     (case mapOSArchToTerraform (os (detectOSAndArch w)) (arch (detectOSAndArch w)) of
        Inl e' \<Rightarrow> False
      | Inr terraformPlatform \<Rightarrow>
          (let outputPath = path_join [outputDir, archive_name version terraformPlatform] in
           (existsSync w (path_join [outputDir, ''terraform'']) \<longrightarrow> extract) \<and>
           \<not> existsSync w outputPath \<and>
           fst (downloadFile fuel (prepare_dir w outputPath)
                  (Some (buildTerraformURL version (os terraformPlatform) (arch terraformPlatform)))
                  outputPath) = Threw e))"

text \<open>
  The extraction step fails with the error \<open>e\<close>: extraction is asked for, the platform is
  supported, the archive is in place or has just been fetched, and \<open>extractZip\<close> throws
  \<open>e\<close> on it.
\<close>

definition extraction_fails ::
  "nat \<Rightarrow> world \<Rightarrow> string \<Rightarrow> string \<Rightarrow> bool \<Rightarrow> js_error \<Rightarrow> bool" where
  "extraction_fails fuel w version outputDir extract e =
     (extract \<and>
      (case mapOSArchToTerraform (os (detectOSAndArch w)) (arch (detectOSAndArch w)) of
         Inl e' \<Rightarrow> False
       | Inr terraformPlatform \<Rightarrow>
           (let outputPath = path_join [outputDir, archive_name version terraformPlatform] in
            if existsSync w outputPath then fst (extractZip w outputPath outputDir) = Threw e
            else
              (case downloadFile fuel (prepare_dir w outputPath)
                      (Some (buildTerraformURL version (os terraformPlatform)
                               (arch terraformPlatform)))
                      outputPath of
                 (Returned p, w2) \<Rightarrow> fst (extractZip w2 outputPath outputDir) = Threw e
               | (other, w2) \<Rightarrow> False))))"

definition console_error :: "world \<Rightarrow> string \<Rightarrow> js_error \<Rightarrow> world" where
  "console_error w prefix e = w\<lparr>stderr := stderr w @ [(prefix, e)]\<rparr>"

text \<open>
  The defaults of the parameters of \<open>downloadTerraform\<close>: the version when it is
  \<open>undefined\<close>, the output directory when it is falsy.
\<close>

definition version_or_default :: "string option \<Rightarrow> string" where
  "version_or_default version = (case version of None \<Rightarrow> TERRAFORM_VERSION | Some v \<Rightarrow> v)"

definition outputDir_or_default :: "world \<Rightarrow> string option \<Rightarrow> string" where
  "outputDir_or_default w outputDir =
     (case outputDir of
        None \<Rightarrow> DEFAULT_OUTPUT_DIR w
      | Some d \<Rightarrow> if d = [] then DEFAULT_OUTPUT_DIR w else d)"

text \<open>
  \<open>downloadTerraform\<close>: the \<open>try\<close>, and the \<open>catch\<close> that prints the error and calls
  \<open>process.exit(1)\<close>.
\<close>

definition downloadTerraform ::
  "nat \<Rightarrow> world \<Rightarrow> string option \<Rightarrow> string option \<Rightarrow> bool \<Rightarrow> string outcome \<times> world" where
  "downloadTerraform fuel w version outputDir extract =
     (case downloadTerraform_try fuel w (version_or_default version)
             (outputDir_or_default w outputDir) extract of
        (Threw e, w1) \<Rightarrow> (Exited 1, console_error w1 ''Error downloading Terraform:'' e)
      | (other, w1) \<Rightarrow> (other, w1))"

section \<open>The index script: finding a cached binary, ensuring one\<close>

text \<open>
  \<open>findCachedTerraform\<close> of the index script with the latest-version lookup. The desired
  version may be any JSON value there, since it can come from the cache file;
  \<open>path.join\<close> throws on a value that is not a string, and the \<open>catch\<close> returns
  \<open>null\<close>.
\<close>

definition findCachedTerraform_latest :: "world \<Rightarrow> json option \<Rightarrow> string option" where
  "findCachedTerraform_latest w desiredVersion =
     (let baseDir = path_join [homedir w, ''.ntf''] in
      if \<not> existsSync w baseDir then None
      else if truthy_opt desiredVersion then
        (case the desiredVersion of
           JStr v \<Rightarrow>
             (let candidate = path_join [baseDir, v, ''terraform''] in
              if existsSync w candidate then Some candidate else None)
         | _ \<Rightarrow> None)
      else None)"

text \<open>
  \<open>ensureTerraform\<close> of the same script. The version from the environment counts when it
  is not empty; a failed lookup of the latest version leaves the version undefined.
\<close>

definition ensureTerraform :: "nat \<Rightarrow> world \<Rightarrow> string outcome \<times> world" where
  "ensureTerraform fuel w =
     (let env = (case env_TERRAFORM_VERSION w of
                   None \<Rightarrow> None
                 | Some v \<Rightarrow> if v = [] then None else Some (JStr v));
          resolved =
            (if env = None then
               (case getLatestTerraformVersionCached fuel w of
                  (Returned v, w1) \<Rightarrow> (Returned (Some v), w1)
                | (Threw e, w1) \<Rightarrow> (Returned None, w1)
                | (Exited c, w1) \<Rightarrow> (Exited c, w1)
                | (Pending, w1) \<Rightarrow> (Pending, w1))
             else (Returned env, w))
      in
      case resolved of
        (Returned desiredVersion, w1) \<Rightarrow>
          (case findCachedTerraform_latest w1 desiredVersion of
             Some cached \<Rightarrow> (Returned cached, w1)
           | None \<Rightarrow>
               if probe_status w1 = Some 0 then (Returned ''terraform'', w1)
               else downloadTerraform fuel w1
                      (if truthy_opt desiredVersion
                       then Some (js_String w1 (the desiredVersion)) else None)
                      None True)
      | (Threw e, w1) \<Rightarrow> (Threw e, w1)
      | (Exited c, w1) \<Rightarrow> (Exited c, w1)
      | (Pending, w1) \<Rightarrow> (Pending, w1))"

text \<open>
  The first statement of \<open>main\<close>: \<open>ensureTerraform\<close> inside a \<open>try\<close> whose \<open>catch\<close>
  prints the error and calls \<open>process.exit(1)\<close>.
\<close>

definition main_ensure :: "nat \<Rightarrow> world \<Rightarrow> string outcome \<times> world" where
  "main_ensure fuel w =
     (case ensureTerraform fuel w of
        (Threw e, w1) \<Rightarrow> (Exited 1, console_error w1 ''Failed to ensure Terraform is available:'' e)
      | (other, w1) \<Rightarrow> (other, w1))"

section \<open>index.js: finding the highest cached version\<close>

text \<open>
  The test \<open>/\d+\.\d+\.\d+/.test(name)\<close>. The expression is not anchored: it matches
  when three runs of digits separated by two dots start at some position of the name. A
  run of digits before a dot has to be read to its end, so at a given position the match
  is decided by reading each run whole.
\<close>

definition starts_with_version :: "string \<Rightarrow> bool" where
  "starts_with_version s =
     (takeWhile is_digit s \<noteq> [] \<and>
      (case dropWhile is_digit s of
         [] \<Rightarrow> False
       | c # r \<Rightarrow>
           c = CHR ''.'' \<and> takeWhile is_digit r \<noteq> [] \<and>
           (case dropWhile is_digit r of
              [] \<Rightarrow> False
            | d # t \<Rightarrow> d = CHR ''.'' \<and> (case t of [] \<Rightarrow> False | e # u \<Rightarrow> is_digit e))))"

fun version_pattern :: "string \<Rightarrow> bool" where
  "version_pattern [] = False"
| "version_pattern (c # cs) = (starts_with_version (c # cs) \<or> version_pattern cs)"

text \<open>The path of the binary under a version's directory.\<close>

definition binary_path :: "world \<Rightarrow> string \<Rightarrow> string" where
  "binary_path w ver = path_join [path_join [homedir w, ''.ntf''], ver, ''terraform'']"

text \<open>
  One turn of the loop over the entries: \<open>best\<close> is \<open>null\<close> or the version and path
  kept so far.
\<close>

definition best_step :: "world \<Rightarrow> (string \<times> string) option \<Rightarrow> string \<Rightarrow> (string \<times> string) option" where
  "best_step w best ver =
     (let candidate = binary_path w ver in
      if existsSync w candidate then
        (if best = None \<or> compareSemver ver (fst (the best)) > 0 then Some (ver, candidate)
         else best)
      else best)"

text \<open>The names \<open>readdirSync\<close> gives, after the two filters.\<close>

definition version_entries :: "dirent list \<Rightarrow> string list" where
  "version_entries ds = filter version_pattern (map name (filter isDirectory ds))"

text \<open>
  \<open>findCachedTerraform\<close> of \<open>index.js\<close>. The desired version comes from the environment
  and counts when it is not empty. An exception of \<open>readdirSync\<close> is caught and gives
  \<open>null\<close>.
\<close>

definition findCachedTerraform :: "world \<Rightarrow> string option \<Rightarrow> string option" where
  "findCachedTerraform w desiredVersion =
     (let baseDir = path_join [homedir w, ''.ntf''] in
      if \<not> existsSync w baseDir then None
      else if (case desiredVersion of
                 None \<Rightarrow> False
               | Some v \<Rightarrow> v \<noteq> [] \<and> existsSync w (path_join [baseDir, v, ''terraform'']))
      then Some (path_join [baseDir, the desiredVersion, ''terraform''])
      else
        (case readdir w baseDir of
           None \<Rightarrow> None
         | Some ds \<Rightarrow> map_option snd (foldl (best_step w) None (version_entries ds))))"

text \<open>
  The desired-version lookup finds nothing: no version is asked for, or the binary of the
  version asked for is not in the cache.
\<close>

definition no_desired_hit :: "world \<Rightarrow> string option \<Rightarrow> bool" where
  "no_desired_hit w desiredVersion =
     (case desiredVersion of
        None \<Rightarrow> True
      | Some v \<Rightarrow> v = [] \<or> \<not> existsSync w (binary_path w v))"

text \<open>The cached versions: the version entries whose directory holds the binary.\<close>

definition cached_versions :: "world \<Rightarrow> dirent list \<Rightarrow> string list" where
  "cached_versions w ds = filter (\<lambda>ver. existsSync w (binary_path w ver)) (version_entries ds)"

text \<open>The first number of a list of components, 0 when there is none.\<close>

definition hd0 :: "int list \<Rightarrow> int" where
  "hd0 xs = (case xs of [] \<Rightarrow> 0 | x # _ \<Rightarrow> x)"

text \<open>
  What the loop keeps: nothing when no cached version has been seen, and otherwise one of
  the cached versions seen, with its path, that none of them exceeds.
\<close>

definition keeps_highest :: "world \<Rightarrow> (string \<times> string) option \<Rightarrow> string list \<Rightarrow> bool" where
  "keeps_highest w best seen =
     (case best of
        None \<Rightarrow> seen = []
      | Some b \<Rightarrow>
          fst b \<in> set seen \<and> snd b = binary_path w (fst b) \<and>
          (\<forall>v \<in> set seen. compareSemver v (fst b) \<le> 0))"

section \<open>A concrete world\<close>

text \<open>
  A home directory \<open>/home/u\<close> whose cache holds a record of version 1.13.3 written at time
  1000, read at time 2000. The latest-release index answers with the tag \<open>v1.14.0\<close>;
  the archive of version 1.14.0 for linux_amd64 is behind one 302 redirect, the archive
  of version 1.13.3 is behind a 307 redirect, \<open>https://moved\<close> is a 307 redirect to
  the latest-release index, the transfer from \<open>https://cdn/broken.zip\<close> breaks with a
  socket error and the one from \<open>https://cdn/closed.zip\<close> is cut by a close, each after
  two bytes, \<open>https://relative\<close> redirects to a relative reference and
  \<open>https://nowhere\<close> redirects without a \<open>Location\<close>; every other request gets a 404.
\<close>

definition example_net :: "string option \<Rightarrow> http_result" where
  "example_net url =
     (if url = Some RELEASE_LATEST then
        Response \<lparr>statusCode = 200, statusMessage = ''OK'', location = None, body = ''REL''\<rparr>
      else if url = Some ''https://releases.hashicorp.com/terraform/1.14.0/terraform_1.14.0_linux_amd64.zip'' then
        Response \<lparr>statusCode = 302, statusMessage = ''Found'', location = Some ''https://cdn/a.zip'', body = ''''\<rparr>
      else if url = Some ''https://releases.hashicorp.com/terraform/1.13.3/terraform_1.13.3_linux_amd64.zip'' then
        Response \<lparr>statusCode = 307, statusMessage = ''Temporary Redirect'', location = Some ''https://cdn/a.zip'', body = ''''\<rparr>
      else if url = Some ''https://cdn/a.zip'' then
        Response \<lparr>statusCode = 200, statusMessage = ''OK'', location = None, body = ''ZIP''\<rparr>
      else if url = Some ''https://cdn/broken.zip'' then
        Truncated ''ZI'' ''ECONNRESET''
      else if url = Some ''https://cdn/closed.zip'' then
        Closed ''ZI''
      else if url = Some ''https://relative'' then
        Response \<lparr>statusCode = 302, statusMessage = ''Found'', location = Some ''/a.zip'', body = []\<rparr>
      else if url = Some ''https://nowhere'' then
        Response \<lparr>statusCode = 302, statusMessage = ''Found'', location = None, body = []\<rparr>
      else if url = Some ''https://moved'' then
        Response \<lparr>statusCode = 307, statusMessage = ''Temporary Redirect'', location = Some RELEASE_LATEST, body = []\<rparr>
      else if url = Some ''https://down'' then
        NetError ''ENOTFOUND''
      else
        Response \<lparr>statusCode = 404, statusMessage = ''Not Found'', location = None, body = ''''\<rparr>)"

definition example_world :: world where
  "example_world =
     \<lparr>fs = [''/home/u/.ntf'' \<mapsto> Dir,
             ''/home/u/.ntf/latest-version.json'' \<mapsto> File 1000 ''REC''],
      readdir = (\<lambda>p. None),
      net = example_net,
      JSON_parse =
        (\<lambda>s. if s = ''REC'' then Some (JObj [(''version'', JStr ''1.13.3''), (''fetchedAt'', JStr ''T'')])
              else if s = ''REL'' then Some (JObj [(''tag_name'', JStr ''v1.14.0'')])
              else None),
      JSON_stringify = (\<lambda>j. ''REC2''),
      to_text = (\<lambda>j. ''''),
      toISOString = (\<lambda>t. ''T''),
      unzip = (\<lambda>z. if z = ''ZIP'' then Some [(''terraform'', ''BIN'')] else None),
      now = 2000,
      homedir = ''/home/u'',
      env_TERRAFORM_VERSION = None,
      node_platform = ''linux'',
      node_arch = ''x64'',
      probe_status = None,
      lookups = [],
      stderr = []\<rparr>"

text \<open>
  The same home directory with three cached versions, 1.2.3, 1.10.0 and 1.9.9, the last
  without a binary, and a directory \<open>notes\<close>.
\<close>

definition cached_world :: world where
  "cached_world =
     example_world
       \<lparr>fs := [''/home/u/.ntf'' \<mapsto> Dir,
               ''/home/u/.ntf/1.2.3'' \<mapsto> Dir,
               ''/home/u/.ntf/1.2.3/terraform'' \<mapsto> File 500 ''BIN123'',
               ''/home/u/.ntf/1.10.0'' \<mapsto> Dir,
               ''/home/u/.ntf/1.10.0/terraform'' \<mapsto> File 600 ''BIN1100'',
               ''/home/u/.ntf/1.9.9'' \<mapsto> Dir,
               ''/home/u/.ntf/notes'' \<mapsto> Dir],
        readdir :=
          (\<lambda>p. if p = ''/home/u/.ntf''
                then Some [\<lparr>name = ''1.2.3'', isDirectory = True\<rparr>,
                           \<lparr>name = ''1.10.0'', isDirectory = True\<rparr>,
                           \<lparr>name = ''1.9.9'', isDirectory = True\<rparr>,
                           \<lparr>name = ''notes'', isDirectory = True\<rparr>]
                else None)\<rparr>"

section \<open>Properties of the platform mapper\<close>

lemma toLowerCase_char_idem: "toLowerCase_char (toLowerCase_char c) = toLowerCase_char c"
  by (auto simp: toLowerCase_char_def lower_table_def split: option.splits if_splits)

lemma toLowerCase_idem: "toLowerCase (toLowerCase s) = toLowerCase s"
  by (simp add: toLowerCase_def toLowerCase_char_idem)

lemma mapOS_lower: "mapOS (toLowerCase s) = mapOS s"
  by (simp add: mapOS_def toLowerCase_idem)

lemma mapArch_lower: "mapArch (toLowerCase s) = mapArch s"
  by (simp add: mapArch_def toLowerCase_idem)

lemma mapOS_table: "mapOS s = map_of os_table (toLowerCase s)"
  by (simp add: mapOS_def os_table_def Let_def)

lemma mapArch_table: "mapArch s = map_of arch_table (toLowerCase s)"
  by (simp add: mapArch_def arch_table_def Let_def)

lemma os_table_lower: "(s, t) \<in> set os_table \<Longrightarrow> toLowerCase s = s"
  by (auto simp: os_table_def toLowerCase_def toLowerCase_char_def lower_table_def)

lemma arch_table_lower: "(s, t) \<in> set arch_table \<Longrightarrow> toLowerCase s = s"
  by (auto simp: arch_table_def toLowerCase_def toLowerCase_char_def lower_table_def)

lemma os_table_distinct: "distinct (map fst os_table)"
  by (simp add: os_table_def)

lemma arch_table_distinct: "distinct (map fst arch_table)"
  by (simp add: arch_table_def)

text \<open>
  Claim C4, as amended. Every pair of the mapping table is mapped to the target the table
  lists. An input whose lower-cased operating system is outside the table throws the
  unsupported-system error, and an input whose system is supported and whose lower-cased
  architecture is outside the table throws the unsupported-architecture error: there is no
  default target. The lower-casing is the mapper's own (\<open>toLowerCase\<close> on both arguments).
\<close>

theorem mapOSArchToTerraform_table:
  "(\<forall>(s, t) \<in> set os_table. \<forall>(a, u) \<in> set arch_table.
      mapOSArchToTerraform s a = Inr \<lparr>os = t, arch = u\<rparr>) \<and>
   (toLowerCase detectedOS \<notin> fst ` set os_table \<longrightarrow>
      mapOSArchToTerraform detectedOS detectedArch = Inl (UnsupportedOS detectedOS)) \<and>
   (toLowerCase detectedOS \<in> fst ` set os_table \<and> toLowerCase detectedArch \<notin> fst ` set arch_table \<longrightarrow>
      mapOSArchToTerraform detectedOS detectedArch = Inl (UnsupportedArch detectedArch))"
proof (intro conjI)
  show "\<forall>(s, t) \<in> set os_table. \<forall>(a, u) \<in> set arch_table.
      mapOSArchToTerraform s a = Inr \<lparr>os = t, arch = u\<rparr>"
  proof (clarify)
    fix s t a u
    assume s: "(s, t) \<in> set os_table" and a: "(a, u) \<in> set arch_table"
    have "mapOS s = Some t"
      using s os_table_distinct by (simp add: mapOS_table os_table_lower)
    moreover have "mapArch a = Some u"
      using a arch_table_distinct by (simp add: mapArch_table arch_table_lower)
    ultimately show "mapOSArchToTerraform s a = Inr \<lparr>os = t, arch = u\<rparr>"
      by (simp add: mapOSArchToTerraform_def)
  qed
next
  show "toLowerCase detectedOS \<notin> fst ` set os_table \<longrightarrow>
      mapOSArchToTerraform detectedOS detectedArch = Inl (UnsupportedOS detectedOS)"
  proof
    assume "toLowerCase detectedOS \<notin> fst ` set os_table"
    then have "mapOS detectedOS = None"
      by (simp add: mapOS_table map_of_eq_None_iff)
    then show "mapOSArchToTerraform detectedOS detectedArch = Inl (UnsupportedOS detectedOS)"
      by (simp add: mapOSArchToTerraform_def)
  qed
next
  show "toLowerCase detectedOS \<in> fst ` set os_table \<and> toLowerCase detectedArch \<notin> fst ` set arch_table \<longrightarrow>
      mapOSArchToTerraform detectedOS detectedArch = Inl (UnsupportedArch detectedArch)"
  proof
    assume h: "toLowerCase detectedOS \<in> fst ` set os_table \<and> toLowerCase detectedArch \<notin> fst ` set arch_table"
    then have "mapOS detectedOS \<noteq> None"
      by (simp add: mapOS_table map_of_eq_None_iff)
    moreover from h have "mapArch detectedArch = None"
      by (simp add: mapArch_table map_of_eq_None_iff)
    ultimately show "mapOSArchToTerraform detectedOS detectedArch = Inl (UnsupportedArch detectedArch)"
      by (auto simp: mapOSArchToTerraform_def)
  qed
qed

text \<open>The table at \<open>macos/ia32\<close>, and the two errors at \<open>Plan9\<close> and \<open>mips\<close>.\<close>

theorem mapOSArchToTerraform_table_witness:
  "mapOSArchToTerraform ''macos'' ''ia32'' = Inr \<lparr>os = ''darwin'', arch = ''386''\<rparr> \<and>
   mapOSArchToTerraform ''Plan9'' ''x64'' = Inl (UnsupportedOS ''Plan9'') \<and>
   mapOSArchToTerraform ''SunOS'' ''mips'' = Inl (UnsupportedArch ''mips'')"
proof -
  have 1: "(''macos'', ''darwin'') \<in> set os_table" by (simp add: os_table_def)
  have 2: "(''ia32'', ''386'') \<in> set arch_table" by (simp add: arch_table_def)
  have 3: "toLowerCase ''Plan9'' \<notin> fst ` set os_table"
    by (simp add: os_table_def toLowerCase_def toLowerCase_char_def lower_table_def)
  have 4: "toLowerCase ''SunOS'' \<in> fst ` set os_table \<and> toLowerCase ''mips'' \<notin> fst ` set arch_table"
    by (simp add: os_table_def arch_table_def toLowerCase_def toLowerCase_char_def lower_table_def)
  from mapOSArchToTerraform_table [of "''Plan9''" "''x64''"] 1 2 3
  have a: "mapOSArchToTerraform ''macos'' ''ia32'' = Inr \<lparr>os = ''darwin'', arch = ''386''\<rparr>"
    and b: "mapOSArchToTerraform ''Plan9'' ''x64'' = Inl (UnsupportedOS ''Plan9'')"
    by blast+
  from mapOSArchToTerraform_table [of "''SunOS''" "''mips''"] 4
  have c: "mapOSArchToTerraform ''SunOS'' ''mips'' = Inl (UnsupportedArch ''mips'')"
    by blast
  from a b c show ?thesis by blast
qed

text \<open>
  Claim C4 as it is written fails: \<open>Linux\<close> and \<open>X64\<close> are not entries of the table,
  and the mapper returns a target for them instead of throwing.
\<close>

theorem mapOSArchToTerraform_outside_counterexample:
  "''Linux'' \<notin> fst ` set os_table \<and> ''X64'' \<notin> fst ` set arch_table \<and>
   mapOSArchToTerraform ''Linux'' ''X64'' = Inr \<lparr>os = ''linux'', arch = ''amd64''\<rparr>"
  by (simp add: os_table_def arch_table_def mapOSArchToTerraform_def mapOS_def mapArch_def
      toLowerCase_def toLowerCase_char_def lower_table_def)

lemma detected_supported:
  "p \<in> set detected_platforms \<Longrightarrow> toLowerCase (detectOS p) \<in> fst ` set os_table"
  by (auto simp: detected_platforms_def detectOS_def os_table_def
      toLowerCase_def toLowerCase_char_def lower_table_def)

lemma supported_os_lower:
  "toLowerCase s \<in> fst ` set os_table \<Longrightarrow>
   mapOSArchToTerraform s a = mapOSArchToTerraform (toLowerCase s) a"
proof -
  assume "toLowerCase s \<in> fst ` set os_table"
  then obtain t where "mapOS s = Some t"
    using map_of_eq_None_iff [of os_table "toLowerCase s"] by (auto simp: mapOS_table)
  then show ?thesis
    by (simp add: mapOSArchToTerraform_def mapOS_lower)
qed

text \<open>
  Claim C10. The mapper gives the same outcome for an input pair and for its lower-cased
  form: the same target when it returns, an error of the same class when it throws. For
  each name the detector produces for a supported system, the call with that name and the
  call with its lower-cased form are equal outright, whatever the architecture.
\<close>

theorem mapOSArchToTerraform_case_insensitive:
  "returned (mapOSArchToTerraform detectedOS detectedArch) =
     returned (mapOSArchToTerraform (toLowerCase detectedOS) (toLowerCase detectedArch)) \<and>
   map_sum class_of id (mapOSArchToTerraform detectedOS detectedArch) =
     map_sum class_of id (mapOSArchToTerraform (toLowerCase detectedOS) (toLowerCase detectedArch)) \<and>
   (\<forall>p \<in> set detected_platforms.
      mapOSArchToTerraform (detectOS p) detectedArch =
        mapOSArchToTerraform (toLowerCase (detectOS p)) detectedArch)"
proof (intro conjI ballI)
  show "returned (mapOSArchToTerraform detectedOS detectedArch) =
     returned (mapOSArchToTerraform (toLowerCase detectedOS) (toLowerCase detectedArch))"
    by (simp add: mapOSArchToTerraform_def mapOS_lower mapArch_lower returned_def
        split: option.splits)
next
  show "map_sum class_of id (mapOSArchToTerraform detectedOS detectedArch) =
     map_sum class_of id (mapOSArchToTerraform (toLowerCase detectedOS) (toLowerCase detectedArch))"
    by (simp add: mapOSArchToTerraform_def mapOS_lower mapArch_lower split: option.splits)
next
  fix p assume "p \<in> set detected_platforms"
  then show "mapOSArchToTerraform (detectOS p) detectedArch =
        mapOSArchToTerraform (toLowerCase (detectOS p)) detectedArch"
    by (intro supported_os_lower detected_supported)
qed

text \<open>The detector's \<open>macOS\<close> (platform \<open>darwin\<close>) against \<open>macos\<close>.\<close>

theorem mapOSArchToTerraform_case_insensitive_witness:
  "mapOSArchToTerraform ''macOS'' ''ARM64'' = mapOSArchToTerraform ''macos'' ''ARM64'' \<and>
   mapOSArchToTerraform ''macos'' ''ARM64'' = Inr \<lparr>os = ''darwin'', arch = ''arm64''\<rparr>"
proof -
  have p: "''darwin'' \<in> set detected_platforms" by (simp add: detected_platforms_def)
  have d: "detectOS ''darwin'' = ''macOS''" by (simp add: detectOS_def)
  have l: "toLowerCase ''macOS'' = ''macos''"
    by (simp add: toLowerCase_def toLowerCase_char_def lower_table_def)
  from mapOSArchToTerraform_case_insensitive [of _ "''ARM64''"] p
  have "mapOSArchToTerraform (detectOS ''darwin'') ''ARM64'' =
        mapOSArchToTerraform (toLowerCase (detectOS ''darwin'')) ''ARM64''"
    by blast
  then have "mapOSArchToTerraform ''macOS'' ''ARM64'' = mapOSArchToTerraform ''macos'' ''ARM64''"
    by (simp add: d l)
  moreover have "mapOSArchToTerraform ''macos'' ''ARM64'' = Inr \<lparr>os = ''darwin'', arch = ''arm64''\<rparr>"
    by (simp add: mapOSArchToTerraform_def mapOS_def mapArch_def
      toLowerCase_def toLowerCase_char_def lower_table_def)
  ultimately show ?thesis by simp
qed

section \<open>Properties of the version comparison\<close>

lemma split_on_nonempty: "split_on sep s \<noteq> []"
  by (induction s) (auto simp: Let_def)

lemma split_on_append:
  "split_on sep (s @ sep # t) = split_on sep s @ split_on sep t"
proof (induction s)
  case Nil
  show ?case by simp
next
  case (Cons c s)
  show ?case
  proof (cases "c = sep")
    case True
    with Cons show ?thesis by simp
  next
    case False
    with Cons split_on_nonempty [of sep s] show ?thesis
      by (cases "split_on sep s") (auto simp: Let_def)
  qed
qed

lemma or_zero_Some: "or_zero (Some n) = (case n of None \<Rightarrow> 0 | Some k \<Rightarrow> k)"
  by (cases n) simp_all

lemma compareSemver_loop_components:
  "compareSemver_loop pa pb i =
     compare_components (map (\<lambda>n. or_zero (Some n)) (drop i pa)) (map (\<lambda>n. or_zero (Some n)) (drop i pb))"
proof (induction pa pb i rule: compareSemver_loop.induct)
  case (1 pa pb i)
  have da: "i < length pa \<Longrightarrow> drop i pa = pa ! i # drop (Suc i) pa"
    by (simp add: Cons_nth_drop_Suc)
  have db: "i < length pb \<Longrightarrow> drop i pb = pb ! i # drop (Suc i) pb"
    by (simp add: Cons_nth_drop_Suc)
  show ?case
  proof (cases "i < max (length pa) (length pb)")
    case False
    then show ?thesis
      by (subst compareSemver_loop.simps) simp
  next
    case m: True
    show ?thesis
    proof (cases "or_zero (index pa i) = or_zero (index pb i)")
      case ne: False
      with m show ?thesis
        by (subst compareSemver_loop.simps)
           (cases "i < length pa"; cases "i < length pb"; auto simp: da db index_def)
    next
      case eq: True
      then have "compareSemver_loop pa pb (i + 1) =
        compare_components (map (\<lambda>n. or_zero (Some n)) (drop (i + 1) pa))
          (map (\<lambda>n. or_zero (Some n)) (drop (i + 1) pb))"
        using m by (intro "1.IH") simp_all
      moreover have "compareSemver_loop pa pb i = compareSemver_loop pa pb (i + 1)"
        using m eq by (subst compareSemver_loop.simps) simp
      ultimately show ?thesis
        using m eq
        by (cases "i < length pa"; cases "i < length pb"; simp add: da db index_def)
    qed
  qed
qed

lemma compareSemver_components:
  "compareSemver a b = compare_components (components a) (components b)"
  by (simp add: compareSemver_def compareSemver_loop_components components_def
      component_value_def or_zero_Some cong: map_cong)

lemma compare_components_range: "compare_components xs ys \<in> {-1, 0, 1}"
  by (induction xs ys rule: compare_components.induct) auto

lemma compare_components_zeros:
  "\<forall>x \<in> set xs. x = 0 \<Longrightarrow> \<forall>y \<in> set ys. y = 0 \<Longrightarrow> compare_components xs ys = 0"
  by (induction xs ys rule: compare_components.induct) auto

lemma compare_components_snoc_zero:
  "compare_components xs (xs @ [0]) = 0 \<and> compare_components (xs @ [0]) xs = 0"
  by (induction xs) auto

lemma components_snoc_zero: "components (s @ ''.0'') = components s @ [0]"
proof -
  have "component_value ''0'' = 0"
    by (simp add: component_value_def parseInt_def parse_digits_def is_digit_def digit_table_def
        digits_value_def digit_value_def is_space_def)
  then show ?thesis
    by (simp add: components_def split_on_append)
qed

text \<open>
  Claim C7. A version string and the same string with a trailing \<open>.0\<close> component
  compare as equal, in both orders and for every string; \<open>1.12\<close> against \<open>1.12.0\<close>
  is the instance the specification names.
\<close>

theorem compareSemver_trailing_zero:
  "compareSemver s (s @ ''.0'') = 0 \<and> compareSemver (s @ ''.0'') s = 0 \<and>
   compareSemver ''1.12'' ''1.12.0'' = 0"
proof -
  have "compareSemver ''1.12'' (''1.12'' @ ''.0'') = 0"
    by (simp only: compareSemver_components components_snoc_zero compare_components_snoc_zero)
  then show ?thesis
    by (simp add: compareSemver_components components_snoc_zero compare_components_snoc_zero)
qed

theorem compareSemver_trailing_zero_witness:
  "compareSemver ''2.0'' ''2.0.0'' = 0 \<and> compareSemver ''2.0.0'' ''2.0'' = 0"
  using compareSemver_trailing_zero [of "''2.0''"]
  by simp

text \<open>
  Claim C9. \<open>compareSemver\<close> returns \<open>-1\<close>, 0 or 1 on every pair of strings: no step
  of it can throw. Its result is the component-wise comparison of the two lists of numbers
  in which a component that does not parse counts as 0 and a missing component counts as
  0. A string none of whose components parses compares equal to \<open>0.0.0\<close>.
\<close>

theorem compareSemver_total:
  "compareSemver a b \<in> {-1, 0, 1} \<and>
   compareSemver a b = compare_components (components a) (components b) \<and>
   ((\<forall>c \<in> set (split_on CHR ''.'' s). parseInt c = None) \<longrightarrow>
      compareSemver s ''0.0.0'' = 0 \<and> compareSemver ''0.0.0'' s = 0)"
proof (intro conjI impI)
  show "compareSemver a b \<in> {-1, 0, 1}"
    by (simp only: compareSemver_components compare_components_range)
  show "compareSemver a b = compare_components (components a) (components b)"
    by (rule compareSemver_components)
  have z: "\<forall>y \<in> set (components ''0.0.0''). y = 0"
    by (simp add: components_def component_value_def parseInt_def parse_digits_def is_digit_def
        digit_table_def digits_value_def digit_value_def is_space_def)
  assume "\<forall>c \<in> set (split_on CHR ''.'' s). parseInt c = None"
  then have s: "\<forall>x \<in> set (components s). x = 0"
    by (auto simp: components_def component_value_def)
  from s z show "compareSemver s ''0.0.0'' = 0"
    by (simp only: compareSemver_components compare_components_zeros)
  from s z show "compareSemver ''0.0.0'' s = 0"
    by (simp only: compareSemver_components compare_components_zeros)
qed

text \<open>The string \<open>latest.x\<close> has two components and neither parses.\<close>

theorem compareSemver_total_witness:
  "compareSemver ''latest.x'' ''0.0.0'' = 0 \<and> compareSemver ''0.0.0'' ''latest.x'' = 0"
proof -
  have "\<forall>c \<in> set (split_on CHR ''.'' ''latest.x''). parseInt c = None"
    by (simp add: parseInt_def parse_digits_def is_digit_def digit_table_def is_space_def)
  with compareSemver_total [of _ _ "''latest.x''"] show ?thesis
    by blast
qed


section \<open>Properties of the exit handler\<close>

text \<open>
  Claim C8. When the child was terminated by a signal, the handler sends that same signal
  to the supervisor's own process and does not call \<open>exit\<close>. When the child exited
  normally the handler exits with the child's code, and with 1 when the code is
  \<open>null\<close>; a child that exits with code 2 makes the supervisor exit with code 2.
\<close>

theorem on_child_exit_mirrors:
  "(s \<noteq> [] \<longrightarrow> on_child_exit pid code (Some s) = Kill pid s) \<and>
   on_child_exit pid (Some c) None = Exit c \<and>
   on_child_exit pid None None = Exit 1 \<and>
   on_child_exit pid (Some 2) None = Exit 2"
  by (simp add: on_child_exit_def)

text \<open>A child killed by \<open>SIGTERM\<close>, under a supervisor with process id 4242.\<close>

theorem on_child_exit_mirrors_witness:
  "on_child_exit 4242 None (Some ''SIGTERM'') = Kill 4242 ''SIGTERM'' \<and>
   on_child_exit 4242 (Some 2) None = Exit 2"
  using on_child_exit_mirrors [of "''SIGTERM''" 4242 None]
  by simp

section \<open>Properties of the latest-version resolver\<close>

lemma requestJson_log_lookup [simp]:
  "requestJson fuel (log_lookup w u) url = requestJson fuel w url"
  by (induction fuel arbitrary: url)
     (simp_all add: log_lookup_def split: http_result.splits option.splits)

lemma js_String_log_lookup [simp]: "js_String (log_lookup w u) v = js_String w v"
  by (simp add: js_String_def log_lookup_def split: json.splits)

lemma normalizeVersion_log_lookup [simp]:
  "normalizeVersion (log_lookup w u) v = normalizeVersion w v"
  by (simp add: normalizeVersion_def)

lemma release_version_log_lookup [simp]:
  "release_version (log_lookup w u) release = release_version w release"
  by (simp add: release_version_def split: sum.splits)

lemma primary_lookup_log_lookup [simp]:
  "primary_lookup fuel (log_lookup w u) = primary_lookup fuel w"
  by (simp add: primary_lookup_def split: outcome.splits)

lemma lookups_log_lookup [simp]: "lookups (log_lookup w u) = lookups w @ [u]"
  by (simp add: log_lookup_def)

lemma lookups_writeLatestCache [simp]: "lookups (writeLatestCache w v) = lookups w"
  by (simp add: writeLatestCache_def Let_def write_file_def mkdirSync_def)

lemma lookups_finish_latest [simp]: "lookups (snd (finish_latest w v)) = lookups w"
  by (simp add: finish_latest_def split: option.splits)

lemma fresh_record_cached: "fresh_record w v \<Longrightarrow> cached_version w = Some v"
  by (auto simp: fresh_record_def cached_version_def readLatestCache_def get_prop_def
      split: option.splits node.splits json.splits)

lemma stale_or_absent_cached: "stale_or_absent w \<Longrightarrow> cached_version w = None"
  by (auto simp: stale_or_absent_def cached_version_def readLatestCache_def
      split: option.splits node.splits sum.splits)

lemma lookups_uncached:
  "cached_version w = None \<Longrightarrow>
   lookups (snd (getLatestTerraformVersionCached fuel w)) =
     lookups w @ RELEASE_LATEST # (if primary_failed fuel w then [TAGS_LATEST] else [])"
  by (simp add: getLatestTerraformVersionCached_def primary_failed_def Let_def
      split: outcome.splits)

text \<open>
  Claim C6. When the persisted record is fresh, the resolver returns the record's version
  and leaves the world as it was: no lookup is made, whatever the bound on requests, even
  none. When the record is absent or an hour old or older, the resolver makes one lookup:
  one query of the latest-release index, followed by one query of the tags index exactly
  when the first did not give a version; nothing else is added to the trace of lookups.
\<close>

theorem getLatestTerraformVersionCached_lookups:
  "(fresh_record w v \<longrightarrow> getLatestTerraformVersionCached fuel w = (Returned v, w)) \<and>
   (stale_or_absent w \<longrightarrow>
      lookups (snd (getLatestTerraformVersionCached fuel w)) =
        lookups w @ RELEASE_LATEST # (if primary_failed fuel w then [TAGS_LATEST] else []))"
proof (intro conjI impI)
  assume "fresh_record w v"
  then have "cached_version w = Some v"
    by (rule fresh_record_cached)
  then show "getLatestTerraformVersionCached fuel w = (Returned v, w)"
    by (simp add: getLatestTerraformVersionCached_def)
next
  assume "stale_or_absent w"
  then have "cached_version w = None"
    by (rule stale_or_absent_cached)
  then show "lookups (snd (getLatestTerraformVersionCached fuel w)) =
        lookups w @ RELEASE_LATEST # (if primary_failed fuel w then [TAGS_LATEST] else [])"
    by (rule lookups_uncached)
qed

text \<open>
  In the concrete world the record is 1000 ms old. Read 3601000 ms after time 0 it is
  stale, and the release index answers: one query. With an empty cache and a network that
  is down, the query of the tags index follows the failed one.
\<close>

lemmas example_defs =
  example_world_def example_net_def LATEST_CACHE_FILE_def LATEST_CACHE_DIR_def ONE_HOUR_MS_def
  RELEASE_LATEST_def TAGS_LATEST_def

theorem getLatestTerraformVersionCached_lookups_witness:
  "getLatestTerraformVersionCached 0 example_world = (Returned (JStr ''1.13.3''), example_world) \<and>
   lookups (snd (getLatestTerraformVersionCached 2 (example_world\<lparr>now := 3601000\<rparr>))) =
     [RELEASE_LATEST] \<and>
   lookups (snd (getLatestTerraformVersionCached 2
      (example_world\<lparr>fs := Map.empty, net := (\<lambda>u. NetError ''ENOTFOUND'')\<rparr>))) =
     [RELEASE_LATEST, TAGS_LATEST]"
proof -
  have f: "fresh_record example_world (JStr ''1.13.3'')"
    by (simp add: fresh_record_def example_defs)
  have s: "stale_or_absent (example_world\<lparr>now := 3601000\<rparr>)"
    by (simp add: stale_or_absent_def example_defs)
  have p: "\<not> primary_failed 2 (example_world\<lparr>now := 3601000\<rparr>)"
    by (simp add: primary_failed_def primary_lookup_def release_version_def get_prop_def
        truthy_opt_def redirect_codes_def numeral_2_eq_2 requestable_def toLowerCase_def
        toLowerCase_char_def lower_table_def example_defs)
  have a: "stale_or_absent (example_world\<lparr>fs := Map.empty, net := (\<lambda>u. NetError ''ENOTFOUND'')\<rparr>)"
    by (simp add: stale_or_absent_def example_defs)
  have q: "primary_failed 2 (example_world\<lparr>fs := Map.empty, net := (\<lambda>u. NetError ''ENOTFOUND'')\<rparr>)"
    by (simp add: primary_failed_def primary_lookup_def numeral_2_eq_2 requestable_def
        toLowerCase_def toLowerCase_char_def lower_table_def example_defs)
  have l: "lookups (example_world\<lparr>now := 3601000\<rparr>) = []"
    "lookups (example_world\<lparr>fs := Map.empty, net := (\<lambda>u. NetError ''ENOTFOUND'')\<rparr>) = []"
    by (simp_all add: example_world_def)
  from getLatestTerraformVersionCached_lookups [of example_world "JStr ''1.13.3''" 0] f
  have 1: "getLatestTerraformVersionCached 0 example_world = (Returned (JStr ''1.13.3''), example_world)"
    by blast
  from getLatestTerraformVersionCached_lookups [of "example_world\<lparr>now := 3601000\<rparr>" _ 2] s p l
  have 2: "lookups (snd (getLatestTerraformVersionCached 2 (example_world\<lparr>now := 3601000\<rparr>))) =
     [RELEASE_LATEST]"
    by simp
  from getLatestTerraformVersionCached_lookups
    [of "example_world\<lparr>fs := Map.empty, net := (\<lambda>u. NetError ''ENOTFOUND'')\<rparr>" _ 2] a q l
  have 3: "lookups (snd (getLatestTerraformVersionCached 2
      (example_world\<lparr>fs := Map.empty, net := (\<lambda>u. NetError ''ENOTFOUND'')\<rparr>))) =
     [RELEASE_LATEST, TAGS_LATEST]"
    by simp
  from 1 2 3 show ?thesis by blast
qed

section \<open>Properties of the archive fetcher\<close>

lemma net_write_file [simp]: "net (write_file w p b) = net w"
  by (simp add: write_file_def)

lemma net_unlinkSync [simp]: "net (unlinkSync w p) = net w"
  by (simp add: unlinkSync_def)

lemma net_createWriteStream [simp]: "net (createWriteStream w p) = net w"
  by (simp add: createWriteStream_def)

lemma fs_unlinkSync [simp]: "fs (unlinkSync w p) p = None"
  by (simp add: unlinkSync_def)

lemma fs_write_file [simp]: "fs (write_file w p b) p = Some (File (now w) b)"
  by (simp add: write_file_def)

lemma fs_createWriteStream [simp]: "fs (createWriteStream w p) p = Some (File (now w) [])"
  by (simp add: createWriteStream_def)

lemma now_write_file [simp]: "now (write_file w p b) = now w"
  by (simp add: write_file_def)

lemma now_unlinkSync [simp]: "now (unlinkSync w p) = now w"
  by (simp add: unlinkSync_def)

lemma now_createWriteStream [simp]: "now (createWriteStream w p) = now w"
  by (simp add: createWriteStream_def)

text \<open>
  The failures the fetcher handles. A response to a requested URL that is not a 301 or a
  302 and whose status is not 2xx makes it reject with the error of that status, and an
  \<open>error\<close> event on the request, before a response or while a body is arriving, makes it
  reject with that error; either way no file is left at the destination.
\<close>

lemma downloadFile_handled_failures:
  "(requestable u \<and> net w (Some u) = Response r \<and> statusCode r \<noteq> 301 \<and> statusCode r \<noteq> 302 \<and>
    \<not> (200 \<le> statusCode r \<and> statusCode r < 300) \<longrightarrow>
      fst (downloadFile (Suc k) w (Some u) outputPath) =
        Threw (HttpError (statusCode r) (statusMessage r)) \<and>
      fs (snd (downloadFile (Suc k) w (Some u) outputPath)) outputPath = None) \<and>
   (requestable u \<and> (net w (Some u) = NetError e \<or> net w (Some u) = Truncated part e) \<longrightarrow>
      fst (downloadFile (Suc k) w (Some u) outputPath) = Threw (NetworkError e) \<and>
      fs (snd (downloadFile (Suc k) w (Some u) outputPath)) outputPath = None)"
  by (auto simp: Let_def)

text \<open>
  Whenever the fetcher rejects with an error of the network or of a status, after any
  number of redirects, there is no file at the destination.
\<close>

lemma downloadFile_rejected_no_file:
  "fst (downloadFile fuel w url outputPath) = Threw e \<Longrightarrow> e \<noteq> TypeError \<Longrightarrow>
   fs (snd (downloadFile fuel w url outputPath)) outputPath = None"
proof (induction fuel arbitrary: w url)
  case 0
  then show ?case by simp
next
  case (Suc k)
  show ?case
  proof (cases url)
    case None
    with Suc.prems show ?thesis
      by (auto simp: Let_def split: http_result.splits)
  next
    case (Some u)
    show ?thesis
    proof (cases "requestable u")
      case False
      with Some Suc.prems show ?thesis
        by (simp add: Let_def)
    next
      case True
      show ?thesis
      proof (cases "net w (Some u)")
        case (NetError x)
        with Some True show ?thesis by (simp add: Let_def)
      next
        case (Truncated part x)
        with Some True show ?thesis by (simp add: Let_def)
      next
        case (Closed part)
        with Some True Suc.prems show ?thesis by (simp add: Let_def)
      next
        case (Response r)
        show ?thesis
        proof (cases "statusCode r = 302 \<or> statusCode r = 301")
          case redirect: True
          with Response Some True Suc.prems
          have "fst (downloadFile k (unlinkSync (createWriteStream w outputPath) outputPath)
                      (location r) outputPath) = Threw e"
            by (simp add: Let_def)
          from Suc.IH [OF this Suc.prems(2)] Response Some True redirect show ?thesis
            by (simp add: Let_def)
        next
          case False
          with Response Some True Suc.prems show ?thesis
            by (auto simp: Let_def split: if_splits)
        qed
      qed
    qed
  qed
qed

text \<open>
  The failures the fetcher does not handle, whatever the bound on requests. When the body
  of a 200 response is cut by a close, the promise never settles and the part that arrived
  stays at the destination. When a 301 or a 302 names a location that \<open>https.get\<close>
  refuses, the promise rejects and an empty file stays at the destination.
\<close>

lemma downloadFile_closed_never_settles:
  "requestable u \<Longrightarrow> net w (Some u) = Closed part \<Longrightarrow>
   fst (downloadFile (Suc k) w (Some u) outputPath) = Pending \<and>
   fs (snd (downloadFile (Suc k) w (Some u) outputPath)) outputPath = Some (File (now w) part)"
  by (simp add: Let_def)

lemma downloadFile_refused_location:
  "requestable u \<Longrightarrow> net w (Some u) = Response r \<Longrightarrow>
   statusCode r = 301 \<or> statusCode r = 302 \<Longrightarrow> location r = Some l \<Longrightarrow> \<not> requestable l \<Longrightarrow>
   fst (downloadFile (Suc (Suc k)) w (Some u) outputPath) = Threw TypeError \<and>
   fs (snd (downloadFile (Suc (Suc k)) w (Some u) outputPath)) outputPath =
     Some (File (now w) [])"
  by (auto simp: Let_def)

text \<open>
  Claim C2, at a body cut by a close and at a redirect to a relative reference. With
  five requests allowed, the transfer from \<open>https://cdn/closed.zip\<close> that is cut after two
  bytes leaves the promise pending and the two bytes at the destination, where the same
  cut reported as a socket error (\<open>https://cdn/broken.zip\<close>) is rejected and cleaned up.
  The redirect of \<open>https://relative\<close> to \<open>/a.zip\<close> is rejected and leaves an empty file.
  A 404 is rejected and cleaned up.
\<close>

theorem downloadFile_unhandled_failure:
  "fst (downloadFile 5 example_world (Some ''https://cdn/closed.zip'') ''/tmp/t.zip'') = Pending \<and>
   fs (snd (downloadFile 5 example_world (Some ''https://cdn/closed.zip'') ''/tmp/t.zip''))
     ''/tmp/t.zip'' = Some (File 2000 ''ZI'') \<and>
   fst (downloadFile 5 example_world (Some ''https://cdn/broken.zip'') ''/tmp/t.zip'') =
     Threw (NetworkError ''ECONNRESET'') \<and>
   fs (snd (downloadFile 5 example_world (Some ''https://cdn/broken.zip'') ''/tmp/t.zip''))
     ''/tmp/t.zip'' = None \<and>
   fst (downloadFile 5 example_world (Some ''https://relative'') ''/tmp/t.zip'') = Threw TypeError \<and>
   fs (snd (downloadFile 5 example_world (Some ''https://relative'') ''/tmp/t.zip''))
     ''/tmp/t.zip'' = Some (File 2000 []) \<and>
   fst (downloadFile 5 example_world (Some ''https://gone'') ''/tmp/t.zip'') =
     Threw (HttpError 404 ''Not Found'') \<and>
   fs (snd (downloadFile 5 example_world (Some ''https://gone'') ''/tmp/t.zip''))
     ''/tmp/t.zip'' = None"
  by code_simp

text \<open>
  The redirects the fetcher does follow: along a chain of 301 and 302 responses that ends
  in a 200, with enough requests allowed, it resolves and the destination holds the body
  of the last response.
\<close>

lemma redirect_chain_fs [simp]:
  "redirect_chain (unlinkSync (createWriteStream w p) p) us b = redirect_chain w us b"
  by (induction w us b rule: redirect_chain.induct) (simp_all split: http_result.splits)

lemma downloadFile_follows_301_302:
  "redirect_chain w us b \<Longrightarrow> length us \<le> fuel \<Longrightarrow>
   fst (downloadFile fuel w (Some (hd us)) outputPath) = Returned outputPath \<and>
   fs (snd (downloadFile fuel w (Some (hd us)) outputPath)) outputPath = Some (File (now w) b)"
proof (induction us arbitrary: w fuel)
  case Nil
  then show ?case by simp
next
  case (Cons u us)
  from Cons.prems obtain k where k: "fuel = Suc k"
    by (cases fuel) auto
  show ?case
  proof (cases us)
    case Nil
    with Cons.prems k show ?thesis
      by (auto simp: Let_def split: http_result.splits)
  next
    case (Cons v vs)
    with Cons.prems obtain r where r: "requestable u" "net w (Some u) = Response r"
      "statusCode r = 301 \<or> statusCode r = 302" "location r = Some v"
      "redirect_chain w (v # vs) b"
      by (auto split: http_result.splits)
    let ?w = "unlinkSync (createWriteStream w outputPath) outputPath"
    have "redirect_chain ?w us b"
      using r Cons by simp
    moreover have "length us \<le> k"
      using Cons.prems k by simp
    ultimately have "fst (downloadFile k ?w (Some (hd us)) outputPath) = Returned outputPath \<and>
      fs (snd (downloadFile k ?w (Some (hd us)) outputPath)) outputPath = Some (File (now ?w) b)"
      by (rule Cons.IH)
    with r k Cons show ?thesis
      by (auto simp: Let_def)
  qed
qed

text \<open>
  Claim C1, at a 307. The fetcher does not follow a 307 that carries a \<open>Location\<close>
  header: it rejects with the status of the redirect and leaves no file, although the
  target answers 200. \<open>requestJson\<close> follows the same redirect.
\<close>

theorem downloadFile_rejects_307:
  "fst (downloadFile 2 example_world (Some ''https://moved'') ''/tmp/t.zip'') =
     Threw (HttpError 307 ''Temporary Redirect'') \<and>
   fs (snd (downloadFile 2 example_world (Some ''https://moved'') ''/tmp/t.zip'')) ''/tmp/t.zip'' = None \<and>
   requestJson 2 example_world ''https://moved'' = Returned (JObj [(''tag_name'', JStr ''v1.14.0'')])"
  by code_simp

text \<open>The archive of version 1.14.0, one 302 away.\<close>

lemma downloadFile_follows_301_302_example:
  "fst (downloadFile 2 example_world
      (Some (buildTerraformURL ''1.14.0'' ''linux'' ''amd64'')) ''/tmp/t.zip'') = Returned ''/tmp/t.zip'' \<and>
   fs (snd (downloadFile 2 example_world
      (Some (buildTerraformURL ''1.14.0'' ''linux'' ''amd64'')) ''/tmp/t.zip'')) ''/tmp/t.zip'' =
     Some (File 2000 ''ZIP'')"
proof -
  have "redirect_chain example_world
      [buildTerraformURL ''1.14.0'' ''linux'' ''amd64'', ''https://cdn/a.zip''] ''ZIP''"
    by code_simp
  from downloadFile_follows_301_302 [OF this, of 2 "''/tmp/t.zip''"] show ?thesis
    by (simp add: example_world_def)
qed

section \<open>Properties of provisioning\<close>

text \<open>Only \<open>console.error\<close> writes to the error stream.\<close>

lemma stderr_write_file [simp]: "stderr (write_file w p b) = stderr w"
  by (simp add: write_file_def)

lemma stderr_unlinkSync [simp]: "stderr (unlinkSync w p) = stderr w"
  by (simp add: unlinkSync_def)

lemma stderr_mkdirSync [simp]: "stderr (mkdirSync w p) = stderr w"
  by (simp add: mkdirSync_def)

lemma stderr_createWriteStream [simp]: "stderr (createWriteStream w p) = stderr w"
  by (simp add: createWriteStream_def)

lemma stderr_prepare_dir [simp]: "stderr (prepare_dir w p) = stderr w"
  by (simp add: prepare_dir_def Let_def)

lemma stderr_downloadFile [simp]:
  "stderr (snd (downloadFile fuel w url outputPath)) = stderr w"
proof (induction fuel arbitrary: w url)
  case 0
  show ?case by simp
next
  case (Suc k)
  show ?case
  proof (cases url)
    case None
    then show ?thesis
      by (simp add: Let_def split: http_result.splits)
  next
    case (Some u)
    then show ?thesis
      by (simp add: Let_def Suc.IH split: http_result.splits)
  qed
qed

lemma stderr_write_entry [simp]: "stderr (write_entry d w entry) = stderr w"
  by (simp add: write_entry_def Let_def)

lemma stderr_foldl_write_entry [simp]:
  "stderr (foldl (write_entry d) w entries) = stderr w"
  by (induction entries arbitrary: w) simp_all

lemma stderr_extractZip [simp]: "stderr (snd (extractZip w zipPath d)) = stderr w"
  by (simp add: extractZip_def Let_def split: option.splits node.splits)

lemma stderr_extract_step [simp]: "stderr (snd (extract_step w outputPath d)) = stderr w"
proof (cases "extractZip w outputPath d")
  case (Pair r w1)
  then have "stderr w1 = stderr w"
    using stderr_extractZip [of w outputPath d] by simp
  with Pair show ?thesis
    by (cases r) (simp_all add: extract_step_def Let_def)
qed

lemma stderr_downloadTerraform_try [simp]:
  "stderr (snd (downloadTerraform_try fuel w version outputDir extract)) = stderr w"
proof (cases "mapOSArchToTerraform (os (detectOSAndArch w)) (arch (detectOSAndArch w))")
  case (Inl e)
  then show ?thesis
    by (simp add: downloadTerraform_try_def Let_def)
next
  case (Inr tp)
  let ?p = "path_join [outputDir, archive_name version tp]"
  let ?d = "downloadFile fuel (prepare_dir w ?p)
              (Some (buildTerraformURL version (os tp) (arch tp))) ?p"
  obtain r w2 where d: "?d = (r, w2)"
    by (cases ?d)
  then have "stderr w2 = stderr w"
    using stderr_downloadFile [of fuel "prepare_dir w ?p"
        "Some (buildTerraformURL version (os tp) (arch tp))" ?p]
    by simp
  moreover have "stderr (snd (extract_step w2 ?p outputDir)) = stderr w2"
    by simp
  ultimately show ?thesis
    using Inr d by (cases r) (simp_all add: downloadTerraform_try_def Let_def)
qed

text \<open>A step that fails makes the body of the \<open>try\<close> throw the error of the step.\<close>

lemma extract_step_propagates:
  "fst (extractZip w outputPath extractDir) = Threw e \<Longrightarrow>
   fst (extract_step w outputPath extractDir) = Threw e"
  by (auto simp: extract_step_def split: prod.splits outcome.splits)

lemma download_fails_throws:
  "download_fails fuel w version outputDir extract e \<Longrightarrow>
   fst (downloadTerraform_try fuel w version outputDir extract) = Threw e"
  by (auto simp: download_fails_def downloadTerraform_try_def Let_def
      split: sum.splits prod.splits outcome.splits)

lemma extraction_fails_throws:
  "extraction_fails fuel w version outputDir extract e \<Longrightarrow>
   fst (downloadTerraform_try fuel w version outputDir extract) = Threw e"
  by (auto simp: extraction_fails_def downloadTerraform_try_def Let_def
      extract_step_propagates
      split: sum.splits prod.splits outcome.splits if_splits)

text \<open>The \<open>catch\<close> of \<open>downloadTerraform\<close> turns every throw into an exit.\<close>

lemma downloadTerraform_never_throws:
  "fst (downloadTerraform fuel w version outputDir extract) \<noteq> Threw e"
  by (simp add: downloadTerraform_def split: prod.splits outcome.splits)

lemma downloadTerraform_catch:
  "fst (downloadTerraform_try fuel w (version_or_default version)
          (outputDir_or_default w outputDir) extract) = Threw e \<Longrightarrow>
   downloadTerraform fuel w version outputDir extract =
     (Exited 1,
      console_error
        (snd (downloadTerraform_try fuel w (version_or_default version)
                (outputDir_or_default w outputDir) extract))
        ''Error downloading Terraform:'' e)"
  by (auto simp: downloadTerraform_def split: prod.splits outcome.splits)

lemma failed_step_exits:
  assumes "download_fails fuel w (version_or_default version)
             (outputDir_or_default w outputDir) extract e \<or>
           extraction_fails fuel w (version_or_default version)
             (outputDir_or_default w outputDir) extract e"
  shows "fst (downloadTerraform fuel w version outputDir extract) = Exited 1 \<and>
         stderr (snd (downloadTerraform fuel w version outputDir extract)) =
           stderr w @ [(''Error downloading Terraform:'', e)]"
proof -
  from assms
  have "fst (downloadTerraform_try fuel w (version_or_default version)
          (outputDir_or_default w outputDir) extract) = Threw e"
    by (blast intro: download_fails_throws extraction_fails_throws)
  then show ?thesis
    by (simp add: downloadTerraform_catch console_error_def)
qed

lemma ensureTerraform_never_throws: "fst (ensureTerraform fuel w) \<noteq> Threw e"
  by (simp add: ensureTerraform_def Let_def downloadTerraform_never_throws
      split: prod.splits outcome.splits option.splits)

lemma main_ensure_is_ensureTerraform: "main_ensure fuel w = ensureTerraform fuel w"
proof (cases "ensureTerraform fuel w")
  case (Pair r w1)
  then have "r \<noteq> Threw e" for e
    using ensureTerraform_never_throws [of fuel w e] by simp
  with Pair show ?thesis
    by (cases r) (auto simp: main_ensure_def)
qed

text \<open>
  Claim C3, as amended. \<open>downloadTerraform\<close> never rejects. Whenever the download step or
  the extraction step fails, that is, the step is reached and \<open>downloadFile\<close> rejects or
  \<open>extractZip\<close> throws, \<open>downloadTerraform\<close> ends the process with exit code 1, and what
  it adds to the error stream is its own line with the error of the step. The same holds
  for any other throw inside its \<open>try\<close>. \<open>ensureTerraform\<close> therefore never throws
  either, and the \<open>catch\<close> of \<open>main\<close> is never entered: the outcome of \<open>main\<close>'s first
  statement is the outcome of \<open>ensureTerraform\<close>.
\<close>

theorem downloadTerraform_fatal:
  "fst (downloadTerraform fuel w version outputDir extract) \<noteq> Threw e \<and>
   (download_fails fuel w (version_or_default version)
      (outputDir_or_default w outputDir) extract e \<or>
    extraction_fails fuel w (version_or_default version)
      (outputDir_or_default w outputDir) extract e \<longrightarrow>
      fst (downloadTerraform fuel w version outputDir extract) = Exited 1 \<and>
      stderr (snd (downloadTerraform fuel w version outputDir extract)) =
        stderr w @ [(''Error downloading Terraform:'', e)]) \<and>
   (fst (downloadTerraform_try fuel w (version_or_default version)
           (outputDir_or_default w outputDir) extract) = Threw e \<longrightarrow>
    downloadTerraform fuel w version outputDir extract =
      (Exited 1,
       console_error
         (snd (downloadTerraform_try fuel w (version_or_default version)
                 (outputDir_or_default w outputDir) extract))
         ''Error downloading Terraform:'' e)) \<and>
   fst (ensureTerraform fuel w) \<noteq> Threw e \<and>
   main_ensure fuel w = ensureTerraform fuel w"
proof (intro conjI impI)
  show "fst (downloadTerraform fuel w version outputDir extract) \<noteq> Threw e"
    by (rule downloadTerraform_never_throws)
  show "fst (ensureTerraform fuel w) \<noteq> Threw e"
    by (rule ensureTerraform_never_throws)
  show "main_ensure fuel w = ensureTerraform fuel w"
    by (rule main_ensure_is_ensureTerraform)
next
  assume f: "download_fails fuel w (version_or_default version)
      (outputDir_or_default w outputDir) extract e \<or>
    extraction_fails fuel w (version_or_default version)
      (outputDir_or_default w outputDir) extract e"
  from failed_step_exits [OF f]
  show "fst (downloadTerraform fuel w version outputDir extract) = Exited 1"
    and "stderr (snd (downloadTerraform fuel w version outputDir extract)) =
        stderr w @ [(''Error downloading Terraform:'', e)]"
    by simp_all
next
  assume "fst (downloadTerraform_try fuel w (version_or_default version)
           (outputDir_or_default w outputDir) extract) = Threw e"
  then show "downloadTerraform fuel w version outputDir extract =
      (Exited 1,
       console_error
         (snd (downloadTerraform_try fuel w (version_or_default version)
                 (outputDir_or_default w outputDir) extract))
         ''Error downloading Terraform:'' e)"
    by (rule downloadTerraform_catch)
qed

text \<open>
  A download that gets a 404 (version 9.9.9), and an archive that cannot be extracted.
\<close>

theorem downloadTerraform_fatal_witness:
  "fst (downloadTerraform 1 (example_world\<lparr>env_TERRAFORM_VERSION := Some ''9.9.9''\<rparr>)
          (Some ''9.9.9'') None True) = Exited 1 \<and>
   stderr (snd (downloadTerraform 1 (example_world\<lparr>env_TERRAFORM_VERSION := Some ''9.9.9''\<rparr>)
          (Some ''9.9.9'') None True)) =
     [(''Error downloading Terraform:'', HttpError 404 ''Not Found'')] \<and>
   fst (downloadTerraform 2 (example_world\<lparr>unzip := (\<lambda>z. None)\<rparr>)
          (Some ''1.14.0'') None True) = Exited 1 \<and>
   stderr (snd (downloadTerraform 2 (example_world\<lparr>unzip := (\<lambda>z. None)\<rparr>)
          (Some ''1.14.0'') None True)) =
     [(''Error downloading Terraform:'', ExtractFailed)]"
proof -
  let ?w = "example_world\<lparr>env_TERRAFORM_VERSION := Some ''9.9.9''\<rparr>"
  let ?x = "example_world\<lparr>unzip := (\<lambda>z. None)\<rparr>"
  have hw: "download_fails 1 ?w (version_or_default (Some ''9.9.9''))
      (outputDir_or_default ?w None) True (HttpError 404 ''Not Found'')"
    by code_simp
  have hx: "extraction_fails 2 ?x (version_or_default (Some ''1.14.0''))
      (outputDir_or_default ?x None) True ExtractFailed"
    by code_simp
  have s: "stderr ?w = []" "stderr ?x = []"
    by (simp_all add: example_world_def)
  from downloadTerraform_fatal [of 1 ?w "Some ''9.9.9''" None True "HttpError 404 ''Not Found''"] hw
  have 1: "fst (downloadTerraform 1 ?w (Some ''9.9.9'') None True) = Exited 1 \<and>
      stderr (snd (downloadTerraform 1 ?w (Some ''9.9.9'') None True)) =
        stderr ?w @ [(''Error downloading Terraform:'', HttpError 404 ''Not Found'')]"
    by blast
  from downloadTerraform_fatal [of 2 ?x "Some ''1.14.0''" None True ExtractFailed] hx
  have 2: "fst (downloadTerraform 2 ?x (Some ''1.14.0'') None True) = Exited 1 \<and>
      stderr (snd (downloadTerraform 2 ?x (Some ''1.14.0'') None True)) =
        stderr ?x @ [(''Error downloading Terraform:'', ExtractFailed)]"
    by blast
  from 1 2 s show ?thesis by simp
qed

text \<open>
  Claim C3 as it is written fails. With version 9.9.9 asked for, the download is rejected
  with a 404; \<open>downloadTerraform\<close> does not reject but exits the process, and the only
  line on the error stream is the downloader's, not the one of \<open>main\<close>'s handler.
\<close>

theorem downloadTerraform_exits_counterexample:
  "fst (downloadFile 1 (example_world\<lparr>env_TERRAFORM_VERSION := Some ''9.9.9''\<rparr>)
          (Some (buildTerraformURL ''9.9.9'' ''linux'' ''amd64''))
          ''/home/u/.ntf/1.13.3/terraform_9.9.9_linux_amd64.zip'') =
     Threw (HttpError 404 ''Not Found'') \<and>
   fst (downloadTerraform 1 (example_world\<lparr>env_TERRAFORM_VERSION := Some ''9.9.9''\<rparr>)
          (Some ''9.9.9'') None True) = Exited 1 \<and>
   fst (main_ensure 1 (example_world\<lparr>env_TERRAFORM_VERSION := Some ''9.9.9''\<rparr>)) = Exited 1 \<and>
   stderr (snd (main_ensure 1 (example_world\<lparr>env_TERRAFORM_VERSION := Some ''9.9.9''\<rparr>))) =
     [(''Error downloading Terraform:'', HttpError 404 ''Not Found'')]"
  by code_simp

section \<open>Properties of the cache lookup\<close>

text \<open>
  The comparison is reflexive, antisymmetric and transitive: it orders versions by their
  components read as an endless sequence that continues with zeros.
\<close>

lemma compare_components_step:
  "compare_components xs ys =
     (if hd0 xs > hd0 ys then 1 else if hd0 xs < hd0 ys then -1
      else compare_components (tl xs) (tl ys))"
  by (cases xs; cases ys; simp add: hd0_def)

lemma compare_components_refl: "compare_components xs xs = 0"
  by (induction xs) simp_all

lemma compare_components_antisym:
  "compare_components ys xs = - compare_components xs ys"
  by (induction xs ys rule: compare_components.induct) auto

lemma compare_components_trans:
  "compare_components xs ys \<le> 0 \<Longrightarrow> compare_components ys zs \<le> 0 \<Longrightarrow>
   compare_components xs zs \<le> 0"
proof (induction "length xs + length ys + length zs" arbitrary: xs ys zs rule: less_induct)
  case less
  show ?case
  proof (cases "xs = [] \<and> ys = [] \<and> zs = []")
    case True
    then show ?thesis by simp
  next
    case False
    then have len: "length (tl xs) + length (tl ys) + length (tl zs) <
        length xs + length ys + length zs"
      by (cases xs; cases ys; cases zs; simp)
    have xy: "hd0 xs \<le> hd0 ys"
      using less.prems(1) by (subst (asm) compare_components_step) (simp split: if_splits)
    have yz: "hd0 ys \<le> hd0 zs"
      using less.prems(2) by (subst (asm) compare_components_step) (simp split: if_splits)
    show ?thesis
    proof (cases "hd0 xs < hd0 zs")
      case True
      then show ?thesis
        by (subst compare_components_step) simp
    next
      case False
      with xy yz have e: "hd0 xs = hd0 ys" "hd0 ys = hd0 zs"
        by simp_all
      have 1: "compare_components (tl xs) (tl ys) \<le> 0"
        using less.prems(1) e by (subst (asm) compare_components_step) simp
      have 2: "compare_components (tl ys) (tl zs) \<le> 0"
        using less.prems(2) e by (subst (asm) compare_components_step) simp
      have "compare_components (tl xs) (tl zs) \<le> 0"
        using len 1 2 by (rule less.hyps)
      with e show ?thesis
        by (subst compare_components_step) simp
    qed
  qed
qed

lemma compareSemver_refl: "compareSemver v v = 0"
  by (simp add: compareSemver_components compare_components_refl)

lemma compareSemver_trans:
  "compareSemver a b \<le> 0 \<Longrightarrow> compareSemver b c \<le> 0 \<Longrightarrow> compareSemver a c \<le> 0"
  unfolding compareSemver_components by (rule compare_components_trans)

lemma compareSemver_greater: "compareSemver a b > 0 \<Longrightarrow> compareSemver b a \<le> 0"
  unfolding compareSemver_components
  using compare_components_antisym [of "components a" "components b"] by simp

text \<open>The loop of \<open>findCachedTerraform\<close> maintains \<open>keeps_highest\<close>.\<close>

lemma best_step_keeps_highest:
  assumes "keeps_highest w best seen"
  shows "keeps_highest w (best_step w best x)
           (seen @ filter (\<lambda>v. existsSync w (binary_path w v)) [x])"
proof (cases "existsSync w (binary_path w x)")
  case False
  with assms show ?thesis
    by (simp add: best_step_def)
next
  case True
  show ?thesis
  proof (cases best)
    case None
    with True assms show ?thesis
      by (simp add: best_step_def keeps_highest_def compareSemver_refl)
  next
    case (Some b)
    with assms have b: "fst b \<in> set seen" "snd b = binary_path w (fst b)"
      "\<forall>v \<in> set seen. compareSemver v (fst b) \<le> 0"
      by (simp_all add: keeps_highest_def)
    show ?thesis
    proof (cases "compareSemver x (fst b) > 0")
      case gt: True
      then have "compareSemver (fst b) x \<le> 0"
        by (rule compareSemver_greater)
      with b(3) have "\<forall>v \<in> set seen. compareSemver v x \<le> 0"
        by (blast intro: compareSemver_trans)
      with True Some gt show ?thesis
        by (simp add: best_step_def keeps_highest_def compareSemver_refl)
    next
      case le: False
      with True Some b show ?thesis
        by (simp add: best_step_def keeps_highest_def)
    qed
  qed
qed

lemma foldl_best_step_keeps_highest:
  "keeps_highest w best seen \<Longrightarrow>
   keeps_highest w (foldl (best_step w) best vs)
     (seen @ filter (\<lambda>v. existsSync w (binary_path w v)) vs)"
proof (induction vs arbitrary: best seen)
  case Nil
  then show ?case by simp
next
  case (Cons x vs)
  from best_step_keeps_highest [OF Cons.prems, of x]
  have "keeps_highest w (foldl (best_step w) (best_step w best x) vs)
     ((seen @ filter (\<lambda>v. existsSync w (binary_path w v)) [x]) @
      filter (\<lambda>v. existsSync w (binary_path w v)) vs)"
    by (rule Cons.IH)
  then show ?case by (simp split: if_splits)
qed

lemma scan_keeps_highest:
  "keeps_highest w (foldl (best_step w) None (version_entries ds)) (cached_versions w ds)"
  using foldl_best_step_keeps_highest [of w None "[]" "version_entries ds"]
  by (simp add: keeps_highest_def cached_versions_def)

lemma findCachedTerraform_scan:
  assumes "existsSync w (path_join [homedir w, ''.ntf''])"
    and "no_desired_hit w desiredVersion"
  shows "findCachedTerraform w desiredVersion =
     (case readdir w (path_join [homedir w, ''.ntf'']) of
        None \<Rightarrow> None
      | Some ds \<Rightarrow> map_option snd (foldl (best_step w) None (version_entries ds)))"
  using assms
  by (auto simp: findCachedTerraform_def no_desired_hit_def binary_path_def Let_def
      split: option.splits)

text \<open>
  \<open>findCachedTerraform\<close> of \<open>index.js\<close> does what claim C5 says. When the cache root
  is there and the desired-version lookup finds nothing, it returns \<open>null\<close> when no
  version directory holds the binary, and otherwise the path of the binary under a cached
  version that no cached version exceeds in \<open>compareSemver\<close>. It returns \<open>null\<close> when
  the cache root is absent or cannot be listed; it has no other outcome.
\<close>

lemma findCachedTerraform_highest:
  "(existsSync w (path_join [homedir w, ''.ntf'']) \<and> no_desired_hit w desiredVersion \<and>
    readdir w (path_join [homedir w, ''.ntf'']) = Some ds \<longrightarrow>
      (cached_versions w ds = [] \<longrightarrow> findCachedTerraform w desiredVersion = None) \<and>
      (cached_versions w ds \<noteq> [] \<longrightarrow>
         (\<exists>ver \<in> set (cached_versions w ds).
            findCachedTerraform w desiredVersion = Some (binary_path w ver) \<and>
            (\<forall>v \<in> set (cached_versions w ds). compareSemver v ver \<le> 0)))) \<and>
   (\<not> existsSync w (path_join [homedir w, ''.ntf'']) \<longrightarrow>
      findCachedTerraform w desiredVersion = None) \<and>
   (no_desired_hit w desiredVersion \<and> readdir w (path_join [homedir w, ''.ntf'']) = None \<longrightarrow>
      findCachedTerraform w desiredVersion = None)"
proof (intro conjI impI)
  assume a: "existsSync w (path_join [homedir w, ''.ntf'']) \<and> no_desired_hit w desiredVersion \<and>
    readdir w (path_join [homedir w, ''.ntf'']) = Some ds"
  then have f: "findCachedTerraform w desiredVersion =
      map_option snd (foldl (best_step w) None (version_entries ds))"
    by (simp add: findCachedTerraform_scan)
  note inv = scan_keeps_highest [of w ds]
  {
    assume "cached_versions w ds = []"
    with inv f show "findCachedTerraform w desiredVersion = None"
      by (auto simp: keeps_highest_def split: option.splits)
  }
  {
    assume "cached_versions w ds \<noteq> []"
    with inv f show "\<exists>ver \<in> set (cached_versions w ds).
            findCachedTerraform w desiredVersion = Some (binary_path w ver) \<and>
            (\<forall>v \<in> set (cached_versions w ds). compareSemver v ver \<le> 0)"
      by (auto simp: keeps_highest_def split: option.splits)
  }
next
  assume "\<not> existsSync w (path_join [homedir w, ''.ntf''])"
  then show "findCachedTerraform w desiredVersion = None"
    by (simp add: findCachedTerraform_def)
next
  assume "no_desired_hit w desiredVersion \<and> readdir w (path_join [homedir w, ''.ntf'']) = None"
  then show "findCachedTerraform w desiredVersion = None"
    by (auto simp: findCachedTerraform_def no_desired_hit_def binary_path_def Let_def
        split: option.splits)
qed

lemma findCachedTerraform_highest_example:
  "findCachedTerraform cached_world None = Some ''/home/u/.ntf/1.10.0/terraform'' \<and>
   findCachedTerraform cached_world (Some ''7.7.7'') = Some ''/home/u/.ntf/1.10.0/terraform'' \<and>
   findCachedTerraform cached_world (Some ''1.2.3'') = Some ''/home/u/.ntf/1.2.3/terraform''"
  by code_simp

text \<open>
  Claim C5, at the other \<open>findCachedTerraform\<close>. The copy in the index script with the
  latest-version lookup returns \<open>null\<close> whenever no version is desired, whatever the
  cache holds, and it returns \<open>null\<close> when the desired version is not cached: it never
  lists the cache root. In the world with the cached versions 1.2.3 and 1.10.0 it returns
  \<open>null\<close> where \<open>index.js\<close> returns the binary of 1.10.0.
\<close>

theorem findCachedTerraform_latest_no_scan:
  "findCachedTerraform_latest w None = None \<and>
   cached_versions cached_world
     [\<lparr>name = ''1.2.3'', isDirectory = True\<rparr>, \<lparr>name = ''1.10.0'', isDirectory = True\<rparr>,
      \<lparr>name = ''1.9.9'', isDirectory = True\<rparr>, \<lparr>name = ''notes'', isDirectory = True\<rparr>] =
     [''1.2.3'', ''1.10.0''] \<and>
   findCachedTerraform_latest cached_world None = None \<and>
   findCachedTerraform_latest cached_world (Some (JStr ''7.7.7'')) = None \<and>
   findCachedTerraform cached_world None = Some ''/home/u/.ntf/1.10.0/terraform''"
proof -
  have "findCachedTerraform_latest w None = None"
    by (simp add: findCachedTerraform_latest_def truthy_opt_def Let_def)
  moreover have "cached_versions cached_world
     [\<lparr>name = ''1.2.3'', isDirectory = True\<rparr>, \<lparr>name = ''1.10.0'', isDirectory = True\<rparr>,
      \<lparr>name = ''1.9.9'', isDirectory = True\<rparr>, \<lparr>name = ''notes'', isDirectory = True\<rparr>] =
     [''1.2.3'', ''1.10.0'']"
    by code_simp
  moreover have "findCachedTerraform_latest cached_world None = None"
    by code_simp
  moreover have "findCachedTerraform_latest cached_world (Some (JStr ''7.7.7'')) = None"
    by code_simp
  moreover have "findCachedTerraform cached_world None = Some ''/home/u/.ntf/1.10.0/terraform''"
    by code_simp
  ultimately show ?thesis by blast
qed

end
